theory Spec2Isabelle
  imports Complex_Main "HOL-Library.Sublist"
begin

section \<open>Python strings\<close>

text \<open>
  A Python \<^verbatim>\<open>str\<close> is modelled as a \<^typ>\<open>string\<close>: each \<^typ>\<open>char\<close> stands for one
  code point below 256. The string methods the service uses are written out with the
  behaviour CPython gives them on such strings.
\<close>

definition py_isspace :: "char \<Rightarrow> bool" where
  \<comment> \<open>the characters \<^verbatim>\<open>str.strip()\<close> removes and the pattern \<^verbatim>\<open>\s\<close> matches\<close>
  "py_isspace c = ((of_char c :: nat) \<in> {9, 10, 11, 12, 13, 28, 29, 30, 31, 32, 133, 160})"

definition py_strip :: "string \<Rightarrow> string" where
  "py_strip s = rev (dropWhile py_isspace (rev (dropWhile py_isspace s)))"

definition py_lower_char :: "char \<Rightarrow> char" where
  "py_lower_char c = (let n = (of_char c :: nat) in
     if (65 \<le> n \<and> n \<le> 90) \<or> (192 \<le> n \<and> n \<le> 222 \<and> n \<noteq> 215)
     then char_of (n + 32) else c)"

definition py_lower :: "string \<Rightarrow> string" where
  "py_lower s = map py_lower_char s"

definition startswith :: "string \<Rightarrow> string \<Rightarrow> bool" where
  \<comment> \<open>\<^verbatim>\<open>s.startswith(p)\<close>\<close>
  "startswith s p = (take (length p) s = p)"

fun py_in :: "string \<Rightarrow> string \<Rightarrow> bool" where
  \<comment> \<open>\<^verbatim>\<open>sub in s\<close>\<close>
  "py_in sub [] = (sub = [])"
| "py_in sub (c # cs) = (startswith (c # cs) sub \<or> py_in sub cs)"

fun py_split_nl :: "string \<Rightarrow> string list" where
  \<comment> \<open>\<^verbatim>\<open>s.split("\n")\<close>: never empty; a trailing newline gives a last empty piece\<close>
  "py_split_nl [] = [[]]"
| "py_split_nl (c # cs) =
     (if c = CHR 0x0A then [] # py_split_nl cs
      else (case py_split_nl cs of [] \<Rightarrow> [[c]] | l # ls \<Rightarrow> (c # l) # ls))"

function py_remove :: "string \<Rightarrow> string \<Rightarrow> string" where
  \<comment> \<open>\<^verbatim>\<open>s.replace(old, "")\<close> for a non-empty \<^verbatim>\<open>old\<close>: every occurrence, scanning left to right\<close>
  "py_remove old s =
     (if s = [] \<or> old = [] then s
      else if startswith s old then py_remove old (drop (length old) s)
      else hd s # py_remove old (tl s))"
  by pat_completeness auto
termination
  by (relation "measure (\<lambda>(old, s). length s)") auto

declare py_remove.simps [simp del]

section \<open>The transcript and the history rebuilt from it\<close>

datatype turn_type = question | answer

record turn =
  t_type :: turn_type
  content :: string

definition TAG_AI :: string where "TAG_AI = ''[AI] ''"
definition TAG_CANDIDATE :: string where "TAG_CANDIDATE = ''[CANDIDATE] ''"
definition TAG_QID :: string where "TAG_QID = ''[QID] ''"

text \<open>
  \<^verbatim>\<open>_build_history_from_transcript\<close>. The transcript read from the session row may be
  missing (\<^verbatim>\<open>None\<close>), which \<^verbatim>\<open>not transcript\<close> treats like the empty string.
\<close>

definition history_entry :: "string \<Rightarrow> turn list" where
  "history_entry line =
     (if startswith line TAG_AI
      then [\<lparr>t_type = question, content = py_remove TAG_AI line\<rparr>]
      else if startswith line TAG_CANDIDATE
      then [\<lparr>t_type = answer, content = py_remove TAG_CANDIDATE line\<rparr>]
      else [])"

definition build_history_from_transcript :: "string option \<Rightarrow> turn list" where
  "build_history_from_transcript transcript =
     (case transcript of
        None \<Rightarrow> []
      | Some t \<Rightarrow> if t = [] then []
                  else concat (map history_entry (py_split_nl (py_strip t))))"

text \<open>\<^verbatim>\<open>_extract_last_question_id\<close>: the last \<^verbatim>\<open>[QID]\<close> line, or \<^verbatim>\<open>None\<close>.\<close>

definition extract_last_question_id :: "string option \<Rightarrow> string option" where
  "extract_last_question_id transcript =
     (case transcript of
        None \<Rightarrow> None
      | Some t \<Rightarrow> if t = [] then None
                  else (case find (\<lambda>line. startswith line TAG_QID) (rev (py_split_nl (py_strip t))) of
                          None \<Rightarrow> None
                        | Some line \<Rightarrow> Some (py_strip (py_remove TAG_QID line))))"

text \<open>
  The lines \<^verbatim>\<open>start_interview\<close> and \<^verbatim>\<open>handle_answer\<close> append to the transcript:
  \<^verbatim>\<open>f"[AI] {question}\n"\<close> and \<^verbatim>\<open>f"[CANDIDATE] {answer}\n"\<close>.
\<close>

definition ai_line :: "string \<Rightarrow> string" where
  "ai_line q = TAG_AI @ q @ [CHR 0x0A]"

definition candidate_line :: "string \<Rightarrow> string" where
  "candidate_line a = TAG_CANDIDATE @ a @ [CHR 0x0A]"

definition qid_line :: "string \<Rightarrow> string" where
  "qid_line i = TAG_QID @ i @ [CHR 0x0A]"

definition turn_line :: "turn \<Rightarrow> string" where
  "turn_line t = (case t_type t of question \<Rightarrow> ai_line (content t)
                                 | answer \<Rightarrow> candidate_line (content t))"

definition encode :: "turn list \<Rightarrow> string" where
  \<comment> \<open>the transcript holding exactly these turns, one tagged line each\<close>
  "encode turns = concat (map turn_line turns)"

definition tag_of :: "turn_type \<Rightarrow> string" where
  "tag_of ty = (case ty of question \<Rightarrow> TAG_AI | answer \<Rightarrow> TAG_CANDIDATE)"

definition bare_line :: "turn \<Rightarrow> string" where
  \<comment> \<open>a turn's transcript line without the newline that ends it\<close>
  "bare_line t = tag_of (t_type t) @ content t"

text \<open>
  The reconstruction as the specification words it: split the transcript into lines,
  classify each line by its leading tag, and strip that tag prefix from the content.
\<close>

definition spec_entry :: "string \<Rightarrow> turn list" where
  "spec_entry line =
     (if startswith line TAG_AI
      then [\<lparr>t_type = question, content = drop (length TAG_AI) line\<rparr>]
      else if startswith line TAG_CANDIDATE
      then [\<lparr>t_type = answer, content = drop (length TAG_CANDIDATE) line\<rparr>]
      else [])"

definition spec_history :: "string \<Rightarrow> turn list" where
  "spec_history t = concat (map spec_entry (py_split_nl t))"

text \<open>A tagged line in which the tag occurs again after the prefix.\<close>

definition tag_recurs :: "string \<Rightarrow> bool" where
  "tag_recurs line =
     (if startswith line TAG_AI then py_in TAG_AI (drop (length TAG_AI) line)
      else startswith line TAG_CANDIDATE \<and> py_in TAG_CANDIDATE (drop (length TAG_CANDIDATE) line))"

definition AI_lines :: "string \<Rightarrow> string list" where
  "AI_lines t = filter (\<lambda>line. startswith line TAG_AI) (py_split_nl t)"

definition CANDIDATE_lines :: "string \<Rightarrow> string list" where
  "CANDIDATE_lines t = filter (\<lambda>line. startswith line TAG_CANDIDATE) (py_split_nl t)"

section \<open>Recommendation codes\<close>

text \<open>\<^verbatim>\<open>_map_recommendation\<close> of the session manager.\<close>

definition map_recommendation :: "string \<Rightarrow> string" where
  "map_recommendation rec =
     (let rec_lower = py_strip (py_lower rec) in
      if py_in ''strong'' rec_lower then ''strong_hire''
      else if py_in ''moderate'' rec_lower \<or> py_in ''fit'' rec_lower then ''hire''
      else if py_in ''needs'' rec_lower \<or> py_in ''improvement'' rec_lower then ''maybe''
      else ''maybe'')"

text \<open>
  The specification's ``contains the keyword anywhere, case-insensitively'': some
  contiguous piece of the text is the keyword once lowered.
\<close>

definition contains_ci :: "string \<Rightarrow> string \<Rightarrow> bool" where
  "contains_ci kw text = (\<exists>pre w suf. text = pre @ w @ suf \<and> py_lower w = kw)"

section \<open>JSON values and Python dictionaries\<close>

text \<open>
  A Python \<^verbatim>\<open>float\<close>: a finite value, an infinity or a NaN. Float arithmetic is not
  modelled; the two places that compute with floats take the computation as a parameter.
\<close>

datatype pyfloat = Finite rat | PosInf | NegInf | NaN

text \<open>
  The values \<^verbatim>\<open>json.loads\<close> returns. A \<^verbatim>\<open>dict\<close> is an association list in insertion
  order, looked up with \<^const>\<open>map_of\<close>.
\<close>

datatype json =
    JNull
  | JBool bool
  | JInt int
  | JFloat pyfloat
  | JString string
  | JArray "json list"
  | JObject "(string \<times> json) list"

type_synonym dict = "(string \<times> json) list"

text \<open>The exceptions raised inside a request, and what the endpoint answers with.\<close>

datatype error =
    JSONDecodeError
  | TypeError
  | AttributeError
  | ValueError
  | OverflowError

datatype http_error =
    HTTP_404
  | HTTP_500 error

fun dict_set :: "string \<Rightarrow> json \<Rightarrow> dict \<Rightarrow> dict" where
  \<comment> \<open>\<^verbatim>\<open>d[k] = v\<close>\<close>
  "dict_set k v [] = [(k, v)]"
| "dict_set k v (p # d) = (if fst p = k then (k, v) # d else p # dict_set k v d)"

definition dict_get :: "dict \<Rightarrow> string \<Rightarrow> json \<Rightarrow> json" where
  \<comment> \<open>\<^verbatim>\<open>d.get(k, default)\<close>\<close>
  "dict_get d k dflt = (case map_of d k of Some v \<Rightarrow> v | None \<Rightarrow> dflt)"

fun fill_defaults :: "dict \<Rightarrow> dict \<Rightarrow> dict" where
  \<comment> \<open>\<^verbatim>\<open>for k, v in defaults.items(): if k not in result: result[k] = v\<close>\<close>
  "fill_defaults [] result = result"
| "fill_defaults (p # defaults) result =
     fill_defaults defaults
       (if map_of result (fst p) = None then dict_set (fst p) (snd p) result else result)"

fun truthy :: "json \<Rightarrow> bool" where
  \<comment> \<open>Python's truth value of a decoded JSON value\<close>
  "truthy JNull = False"
| "truthy (JBool b) = b"
| "truthy (JInt n) = (n \<noteq> 0)"
| "truthy (JFloat f) = (f \<noteq> Finite 0)"
| "truthy (JString s) = (s \<noteq> [])"
| "truthy (JArray xs) = (xs \<noteq> [])"
| "truthy (JObject d) = (d \<noteq> [])"

section \<open>Cleaning and parsing the model's output\<close>

text \<open>
  \<^verbatim>\<open>re.sub(r'^```json\s*', '', s)\<close> and \<^verbatim>\<open>re.sub(r'^```\s*', '', s)\<close>: a leading
  marker goes, with the whitespace after it.
\<close>

definition sub_leading :: "string \<Rightarrow> string \<Rightarrow> string" where
  "sub_leading marker s =
     (if startswith s marker then dropWhile py_isspace (drop (length marker) s) else s)"

text \<open>
  \<^verbatim>\<open>re.sub(r'\s*```$', '', s)\<close>: the leftmost position from which the rest of the
  string is whitespace, the fence, and the end of the string (or the newline that ends
  it) is where the match starts.
\<close>

fun sub_trailing_fence :: "string \<Rightarrow> string" where
  "sub_trailing_fence [] = []"
| "sub_trailing_fence (c # cs) =
     (let r = dropWhile py_isspace (c # cs) in
      if r = ''```'' then []
      else if r = ''```'' @ [CHR 0x0A] then [CHR 0x0A]
      else c # sub_trailing_fence cs)"

text \<open>
  \<^verbatim>\<open>re.search(r'\{[\s\S]*\}', s)\<close>: from the first opening brace to the last closing
  brace after it, when there is one.
\<close>

definition brace_region :: "string \<Rightarrow> string option" where
  "brace_region s =
     (let r = dropWhile (\<lambda>c. c \<noteq> CHR ''{'') s in
      if r \<noteq> [] \<and> CHR ''}'' \<in> set r
      then Some (rev (dropWhile (\<lambda>c. c \<noteq> CHR ''}'') (rev r)))
      else None)"

definition strip_fences :: "string \<Rightarrow> string" where
  \<comment> \<open>the first five lines of \<^verbatim>\<open>_clean_json_response\<close>\<close>
  "strip_fences text =
     py_strip (sub_trailing_fence (sub_leading ''```'' (sub_leading ''```json'' (py_strip text))))"

text \<open>
  \<^verbatim>\<open>_clean_json_response\<close>. \<^verbatim>\<open>json.loads\<close> is library code and is a parameter of the
  model: it returns the decoded value or raises. Only the first call is inside the
  \<^verbatim>\<open>try\<close>.
\<close>

definition clean_json_response :: "(string \<Rightarrow> error + json) \<Rightarrow> string \<Rightarrow> error + json" where
  "clean_json_response json_loads text =
     (let cleaned = strip_fences text in
      case json_loads cleaned of
        Inr v \<Rightarrow> Inr v
      | Inl e \<Rightarrow>
          if e = JSONDecodeError
          then (case brace_region cleaned of
                  Some m \<Rightarrow> json_loads m
                | None \<Rightarrow> Inr (JObject []))
          else Inl e)"

text \<open>
  To run the model on a concrete response, \<^verbatim>\<open>json.loads\<close> is given by the texts it
  decodes in that run, each with the value Python returns for it; every other text it is
  applied to is one that Python rejects.
\<close>

definition loads_table :: "(string \<times> json) list \<Rightarrow> string \<Rightarrow> error + json" where
  "loads_table tbl s = (case map_of tbl s of Some v \<Rightarrow> Inr v | None \<Rightarrow> Inl JSONDecodeError)"

section \<open>The language model and the chains that call it\<close>

datatype message = AIMessage string | HumanMessage string

text \<open>
  What a chain sends to the model, without the fixed wording of its prompts: the values
  the prompt template is filled with, and for the interviewer the conversation messages.
\<close>

datatype llm_request =
    InterviewerRequest string string string "turn list" bool "message list"
  | EvaluatorRequest string string
  | SummaryRequest string string "turn list" int int

text \<open>
  Everything that reaches the service from outside while it serves one request: the
  model's reply to each request, \<^verbatim>\<open>json.loads\<close>, the configured ceiling, the clock
  readings in milliseconds (the one that replaces a missing start time, the one the
  elapsed time is taken from, the one \<^verbatim>\<open>generate_summary\<close> takes), the id the store
  gives to a question row it creates, and the float computations
  \<^verbatim>\<open>round(ms / 1000 / 60, 1)\<close>, \<^verbatim>\<open>int((sum(xs) / len(xs)) * 10)\<close> and
  \<^verbatim>\<open>int(x * 60)\<close>, and \<^verbatim>\<open>str\<close> applied to a decoded value.
\<close>

record env =
  llm :: "llm_request \<Rightarrow> string"
  json_loads :: "string \<Rightarrow> error + json"
  MAX_INTERVIEW_DURATION_MS :: int
  now_fallback :: int
  now_elapsed :: int
  now_summary :: int
  new_question_id :: string
  round_minutes :: "int \<Rightarrow> pyfloat"
  score_of :: "json list \<Rightarrow> error + int"
  seconds_of :: "json \<Rightarrow> error + int"
  str_of :: "json \<Rightarrow> string"

definition DEFAULT_MAX_INTERVIEW_DURATION_MS :: int where
  \<comment> \<open>\<^verbatim>\<open>config.py\<close>: the value when the environment does not set one\<close>
  "DEFAULT_MAX_INTERVIEW_DURATION_MS = 5 * 60 * 1000"

subsection \<open>The answer evaluator\<close>

definition DIMENSIONS :: "string list" where
  "DIMENSIONS = [''relevance'', ''depth'', ''clarity'', ''communication'',
                 ''problem_solving'', ''practical_experience'']"

definition NO_ANSWER_EVALUATION :: json where
  "NO_ANSWER_EVALUATION = JObject
     [(''relevance'', JInt 0), (''depth'', JInt 0), (''clarity'', JInt 0),
      (''communication'', JInt 0), (''problem_solving'', JInt 0),
      (''practical_experience'', JInt 0), (''short_summary'', JString ''No answer provided'')]"

definition EVALUATION_DEFAULTS :: dict where
  "EVALUATION_DEFAULTS =
     [(''relevance'', JInt 5), (''depth'', JInt 5), (''clarity'', JInt 5),
      (''communication'', JInt 5), (''problem_solving'', JInt 5),
      (''practical_experience'', JInt 5), (''short_summary'', JString ''Unable to evaluate'')]"

definition blank :: "string \<Rightarrow> bool" where
  \<comment> \<open>\<^verbatim>\<open>not answer or not answer.strip()\<close>\<close>
  "blank s = (s = [] \<or> py_strip s = [])"

text \<open>
  The loop that fills in the defaults, on whatever \<^verbatim>\<open>_clean_json_response\<close> returned. On
  a list or a string \<^verbatim>\<open>k not in result\<close> is a membership or substring test and the
  assignment raises; on the other values the test itself raises.
\<close>

definition ensure_fields :: "dict \<Rightarrow> json \<Rightarrow> error + json" where
  "ensure_fields defaults result =
     (case result of
        JObject d \<Rightarrow> Inr (JObject (fill_defaults defaults d))
      | JArray xs \<Rightarrow>
          if list_all (\<lambda>p. JString (fst p) \<in> set xs) defaults then Inr (JArray xs)
          else Inl TypeError
      | JString s \<Rightarrow>
          if list_all (\<lambda>p. py_in (fst p) s) defaults then Inr (JString s)
          else Inl TypeError
      | _ \<Rightarrow> if defaults = [] then Inr result else Inl TypeError)"

text \<open>
  \<^verbatim>\<open>evaluate_answer\<close>, returning its result together with the requests it sent to the
  model.
\<close>

definition evaluate_answer :: "env \<Rightarrow> string \<Rightarrow> string \<Rightarrow> (error + json) \<times> llm_request list" where
  "evaluate_answer e question_text answer_text =
     (if blank answer_text then (Inr NO_ANSWER_EVALUATION, [])
      else
        let request = EvaluatorRequest question_text answer_text in
        (case clean_json_response (json_loads e) (llm e request) of
           Inl err \<Rightarrow> Inl err
         | Inr result \<Rightarrow> ensure_fields EVALUATION_DEFAULTS result,
         [request]))"

subsection \<open>The summary generator\<close>

definition SUMMARY_DEFAULTS :: dict where
  "SUMMARY_DEFAULTS =
     [(''strengths'', JArray []),
      (''improvement_areas'', JArray []),
      (''skill_wise_scores'', JObject
         [(''communication'', JInt 5), (''problem_solving'', JInt 5),
          (''role_specific_knowledge'', JInt 5), (''practical_experience'', JInt 5),
          (''clarity'', JInt 5), (''confidence'', JInt 5)]),
      (''overall_score'', JInt 5),
      (''time_taken_minutes'', JInt 0),
      (''resume_match_percentage'', JInt 50),
      (''final_recommendation'', JString ''Needs Improvement''),
      (''expected_response_time'', JString ''Within 3-5 business days'')]"

text \<open>
  \<^verbatim>\<open>generate_summary\<close>. The assignment to \<^verbatim>\<open>result["time_taken_minutes"]\<close> raises on
  anything but a dictionary.
\<close>

definition generate_summary ::
  "env \<Rightarrow> string \<Rightarrow> string \<Rightarrow> turn list \<Rightarrow> int \<Rightarrow> (error + json) \<times> llm_request list" where
  "generate_summary e resume job_description history start_time =
     (let current_time = now_summary e;
          request = SummaryRequest resume job_description history start_time current_time in
      (case clean_json_response (json_loads e) (llm e request) of
         Inl err \<Rightarrow> Inl err
       | Inr result \<Rightarrow>
           (case result of
              JObject d \<Rightarrow>
                let time_taken_ms = current_time - start_time in
                Inr (JObject (fill_defaults SUMMARY_DEFAULTS
                       (dict_set ''time_taken_minutes''
                          (JFloat (round_minutes e time_taken_ms)) d)))
            | _ \<Rightarrow> Inl TypeError),
       [request]))"

text \<open>What the data model asks of an evaluation: six integer dimensions in the range 0 to 10.\<close>

definition dimension_ok :: "json \<Rightarrow> bool" where
  "dimension_ok v = (case v of JInt n \<Rightarrow> 0 \<le> n \<and> n \<le> 10 | _ \<Rightarrow> False)"

definition evaluation_in_range :: "json \<Rightarrow> bool" where
  "evaluation_in_range ev =
     (case ev of
        JObject d \<Rightarrow>
          list_all (\<lambda>k. case map_of d k of Some v \<Rightarrow> dimension_ok v | None \<Rightarrow> False) DIMENSIONS
      | _ \<Rightarrow> False)"

definition dimension_of :: "json \<Rightarrow> string \<Rightarrow> json option" where
  \<comment> \<open>the value an evaluation holds for a dimension, when it is a dictionary that has it\<close>
  "dimension_of ev k = (case ev of JObject d \<Rightarrow> map_of d k | _ \<Rightarrow> None)"

section \<open>The store\<close>

text \<open>
  The rows of \<^verbatim>\<open>interview_sessions\<close>, \<^verbatim>\<open>interview_answers\<close> and
  \<^verbatim>\<open>interview_questions\<close>, with the columns the service reads or writes. A start time
  is kept as the milliseconds its ISO text parses to; time stamps the service only
  writes are left out. The store itself does not fail.
\<close>

record completion =
  total_duration_seconds :: int
  overall_score :: json
  technical_score :: json
  communication_score :: json
  behavioral_score :: json
  presentation_score :: json
  ai_recommendation :: string
  strengths :: json
  improvement_areas :: json

record session_row =
  s_id :: string
  s_status :: string
  s_started_at :: "int option"
  s_full_transcript :: "string option"
  s_template_id :: "string option"
  s_completion :: "completion option"

record answer_row =
  a_session_id :: string
  a_question_text_snapshot :: string
  a_transcript :: string
  a_score :: int
  a_content_score :: int
  a_delivery_score :: int
  a_ai_feedback :: json
  a_question_id :: "string option"

record question_row =
  q_id :: string
  q_text :: json
  q_template_id :: "string option"

record db =
  db_sessions :: "session_row list"
  db_answers :: "answer_row list"
  db_questions :: "question_row list"

definition get_session :: "db \<Rightarrow> string \<Rightarrow> session_row option" where
  "get_session d sid = find (\<lambda>r. s_id r = sid) (db_sessions d)"

definition get_answers_for_session :: "db \<Rightarrow> string \<Rightarrow> answer_row list" where
  "get_answers_for_session d sid = filter (\<lambda>a. a_session_id a = sid) (db_answers d)"

definition patch_session :: "db \<Rightarrow> string \<Rightarrow> (session_row \<Rightarrow> session_row) \<Rightarrow> db" where
  \<comment> \<open>a \<^verbatim>\<open>PATCH\<close> of the rows with this id\<close>
  "patch_session d sid f =
     d\<lparr>db_sessions := map (\<lambda>r. if s_id r = sid then f r else r) (db_sessions d)\<rparr>"

definition update_session_transcript :: "db \<Rightarrow> string \<Rightarrow> string \<Rightarrow> db" where
  "update_session_transcript d sid transcript =
     patch_session d sid (\<lambda>r. r\<lparr>s_full_transcript := Some transcript\<rparr>)"

definition create_interview_question :: "env \<Rightarrow> db \<Rightarrow> json \<Rightarrow> string option \<Rightarrow> string \<times> db" where
  "create_interview_question e d question_text template_id =
     (new_question_id e,
      d\<lparr>db_questions := db_questions d @
         [\<lparr>q_id = new_question_id e, q_text = question_text,
           q_template_id = (case template_id of
                              Some t \<Rightarrow> if t \<noteq> [] then Some t else None
                            | None \<Rightarrow> None)\<rparr>]\<rparr>)"

text \<open>
  \<^verbatim>\<open>store_answer\<close>: \<^verbatim>\<open>evaluation.get\<close> needs a dictionary, and the three averages
  may raise.
\<close>

definition store_answer ::
  "env \<Rightarrow> db \<Rightarrow> string \<Rightarrow> string \<Rightarrow> string \<Rightarrow> json \<Rightarrow> string option \<Rightarrow> error + db" where
  "store_answer e d sid question_text answer_text evaluation question_id =
     (case evaluation of
        JObject ev \<Rightarrow>
          (case score_of e (map (\<lambda>k. dict_get ev k (JInt 5)) DIMENSIONS) of
             Inl err \<Rightarrow> Inl err
           | Inr avg_score \<Rightarrow>
          (case score_of e [dict_get ev ''relevance'' (JInt 5), dict_get ev ''depth'' (JInt 5),
                            dict_get ev ''problem_solving'' (JInt 5)] of
             Inl err \<Rightarrow> Inl err
           | Inr content_score \<Rightarrow>
          (case score_of e [dict_get ev ''clarity'' (JInt 5),
                            dict_get ev ''communication'' (JInt 5)] of
             Inl err \<Rightarrow> Inl err
           | Inr delivery_score \<Rightarrow>
               Inr (d\<lparr>db_answers := db_answers d @
                  [\<lparr>a_session_id = sid,
                    a_question_text_snapshot = question_text,
                    a_transcript = answer_text,
                    a_score = avg_score,
                    a_content_score = content_score,
                    a_delivery_score = delivery_score,
                    a_ai_feedback = dict_get ev ''short_summary'' (JString []),
                    a_question_id = (case question_id of
                                       Some i \<Rightarrow> if i \<noteq> [] then Some i else None
                                     | None \<Rightarrow> None)\<rparr>]\<rparr>))))
      | _ \<Rightarrow> Inl AttributeError)"

text \<open>
  \<^verbatim>\<open>complete_session\<close>: the one place that writes a status. The duration, the skill
  scores and the recommendation are read in this order, and each may raise.
\<close>

definition complete_session :: "env \<Rightarrow> db \<Rightarrow> string \<Rightarrow> json \<Rightarrow> error + db" where
  "complete_session e d sid summary =
     (case summary of
        JObject sm \<Rightarrow>
          (case seconds_of e (dict_get sm ''time_taken_minutes'' (JInt 0)) of
             Inl err \<Rightarrow> Inl err
           | Inr seconds \<Rightarrow>
          (case dict_get sm ''skill_wise_scores'' (JObject []) of
             JObject skill_scores \<Rightarrow>
               (case dict_get sm ''final_recommendation'' (JString []) of
                  JString rec \<Rightarrow>
                    Inr (patch_session d sid (\<lambda>r. r
                      \<lparr>s_status := ''completed'',
                       s_completion := Some
                         \<lparr>total_duration_seconds = seconds,
                          overall_score = dict_get sm ''overall_score'' (JInt 0),
                          technical_score = dict_get skill_scores ''role_specific_knowledge'' (JInt 0),
                          communication_score = dict_get skill_scores ''communication'' (JInt 0),
                          behavioral_score = dict_get skill_scores ''confidence'' (JInt 0),
                          presentation_score = dict_get skill_scores ''clarity'' (JInt 0),
                          ai_recommendation = map_recommendation rec,
                          strengths = dict_get sm ''strengths'' (JArray []),
                          improvement_areas = dict_get sm ''improvement_areas'' (JArray [])\<rparr>\<rparr>))
                | _ \<Rightarrow> Inl AttributeError)
           | _ \<Rightarrow> Inl AttributeError))
      | _ \<Rightarrow> Inl AttributeError)"

section \<open>Submitting an answer\<close>

definition extract_resume_context :: "string option \<Rightarrow> string" where
  "extract_resume_context transcript =
     (case transcript of
        None \<Rightarrow> ''Candidate's resume provided.''
      | Some t \<Rightarrow>
          if t = [] then ''Candidate's resume provided.''
          else (case find (\<lambda>line. startswith line ''[SYSTEM] Resume parsed for:'') (py_split_nl t) of
                  Some line \<Rightarrow>
                    ''Candidate: '' @ py_strip (py_remove ''[SYSTEM] Resume parsed for:'' line)
                | None \<Rightarrow> ''Candidate's resume provided.''))"

definition DEFAULT_JOB_DESCRIPTION :: string where
  "DEFAULT_JOB_DESCRIPTION =
     ''Software Engineer role requiring strong technical skills and problem solving.''"

definition extract_job_description :: "string option \<Rightarrow> string" where
  "extract_job_description transcript =
     (case transcript of
        None \<Rightarrow> DEFAULT_JOB_DESCRIPTION
      | Some t \<Rightarrow>
          if t = [] then DEFAULT_JOB_DESCRIPTION
          else (case find (\<lambda>line. startswith line ''[SYSTEM] Job description:'') (py_split_nl t) of
                  Some line \<Rightarrow> py_strip (py_remove ''[SYSTEM] Job description:'' line)
                | None \<Rightarrow> DEFAULT_JOB_DESCRIPTION))"

definition last10 :: "'a list \<Rightarrow> 'a list" where
  \<comment> \<open>\<^verbatim>\<open>xs[-10:]\<close>\<close>
  "last10 xs = drop (length xs - 10) xs"

definition build_conversation_messages :: "turn list \<Rightarrow> message list" where
  "build_conversation_messages history =
     concat (map (\<lambda>entry.
        if content entry = [] then []
        else (case t_type entry of
                question \<Rightarrow> [AIMessage (content entry)]
              | answer \<Rightarrow> [HumanMessage (content entry)]))
       (last10 history))"

definition run_interviewer ::
  "env \<Rightarrow> string \<Rightarrow> string \<Rightarrow> string \<Rightarrow> turn list \<Rightarrow> bool \<Rightarrow> message list \<Rightarrow> error + json" where
  "run_interviewer e resume job_description phase history stop_interview conversation_messages =
     clean_json_response (json_loads e)
       (llm e (InterviewerRequest resume job_description phase (last10 history) stop_interview
                 conversation_messages))"

text \<open>The question being answered: the last transcript line that starts with \<^verbatim>\<open>[AI]\<close>.\<close>

definition last_question_of :: "string option \<Rightarrow> string" where
  "last_question_of transcript =
     (case transcript of
        None \<Rightarrow> []
      | Some t \<Rightarrow>
          if t = [] then []
          else (case find (\<lambda>line. startswith line ''[AI]'') (rev (py_split_nl (py_strip t))) of
                  Some line \<Rightarrow> py_remove TAG_AI line
                | None \<Rightarrow> []))"

record answer_request =
  r_session_id :: string
  r_answer :: string

datatype response =
    Completed json
  | Running json json

text \<open>The timing block of \<^verbatim>\<open>handle_answer\<close>.\<close>

definition start_time_ms :: "env \<Rightarrow> session_row \<Rightarrow> int" where
  "start_time_ms e session_data =
     (case s_started_at session_data of Some t \<Rightarrow> t | None \<Rightarrow> now_fallback e)"

definition elapsed_ms :: "env \<Rightarrow> session_row \<Rightarrow> int" where
  "elapsed_ms e session_data = now_elapsed e - start_time_ms e session_data"

definition time_expired :: "env \<Rightarrow> session_row \<Rightarrow> bool" where
  "time_expired e session_data = (elapsed_ms e session_data > MAX_INTERVIEW_DURATION_MS e)"

text \<open>The call to the interviewer, with the phase taken from the number of stored answers.\<close>

definition interviewer_reply :: "env \<Rightarrow> db \<Rightarrow> session_row \<Rightarrow> error + json" where
  "interviewer_reply e d session_data =
     (let previous_answers = get_answers_for_session d (s_id session_data);
          answer_count = length previous_answers;
          phase = (if answer_count < 1 then ''introduction'' else ''technical'');
          transcript = s_full_transcript session_data;
          history = build_history_from_transcript transcript
      in run_interviewer e (extract_resume_context transcript) (extract_job_description transcript)
           phase history (time_expired e session_data) (build_conversation_messages history))"

text \<open>
  The f-string \<^verbatim>\<open>f"[AI] {ai_question}\n"\<close>: a string is put in as it is, any other
  value through \<^verbatim>\<open>str\<close>.
\<close>

definition format_value :: "env \<Rightarrow> json \<Rightarrow> string" where
  "format_value e v = (case v of JString s \<Rightarrow> s | _ \<Rightarrow> str_of e v)"

text \<open>
  The block of \<^verbatim>\<open>handle_answer\<close> that updates the transcript: the candidate's line,
  and, unless the interview stops, a new question row with its two lines.
\<close>

definition update_transcript :: "env \<Rightarrow> db \<Rightarrow> session_row \<Rightarrow> answer_request \<Rightarrow> string \<Rightarrow> json \<Rightarrow> bool \<Rightarrow> db" where
  "update_transcript e d1 session_data req t ai_question should_stop =
     (let answered = t @ candidate_line (r_answer req);
          asks = (truthy ai_question \<and> \<not> should_stop);
          d2 = (if asks
                then snd (create_interview_question e d1 ai_question (s_template_id session_data))
                else d1);
          updated_transcript =
            (if asks
             then answered @ qid_line (new_question_id e) @ ai_line (format_value e ai_question)
             else answered)
      in update_session_transcript d2 (r_session_id req) updated_transcript)"

text \<open>
  The last block: on a stop the summary is generated from the history with the new
  answer and the session is completed; otherwise the next question is returned.
\<close>

definition stop_or_continue ::
  "env \<Rightarrow> db \<Rightarrow> session_row \<Rightarrow> answer_request \<Rightarrow> string \<Rightarrow> json \<Rightarrow> json \<Rightarrow> bool \<Rightarrow>
   db \<times> (http_error + response)" where
  "stop_or_continue e d3 session_data req t ai_question ai_feedback should_stop =
     (if should_stop
      then (let transcript = s_full_transcript session_data;
                full_history = build_history_from_transcript
                                 (Some (t @ candidate_line (r_answer req))) in
            case fst (generate_summary e (extract_resume_context transcript)
                        (extract_job_description transcript) full_history
                        (start_time_ms e session_data)) of
              Inl err \<Rightarrow> (d3, Inl (HTTP_500 err))
            | Inr summary \<Rightarrow>
                (case complete_session e d3 (r_session_id req) summary of
                   Inl err \<Rightarrow> (d3, Inl (HTTP_500 err))
                 | Inr d4 \<Rightarrow> (d4, Inr (Completed summary))))
      else (d3, Inr (Running ai_question ai_feedback)))"

text \<open>
  \<^verbatim>\<open>handle_answer\<close>. It returns the store as the request leaves it, with the response or
  the HTTP error. Any exception other than the 404 is turned into a 500 by the outer
  \<^verbatim>\<open>except\<close>; what was written before it stays written. Appending to a missing
  transcript raises \<^verbatim>\<open>TypeError\<close>.
\<close>

definition handle_answer :: "env \<Rightarrow> db \<Rightarrow> answer_request \<Rightarrow> db \<times> (http_error + response)" where
  "handle_answer e d req =
     (case get_session d (r_session_id req) of
        None \<Rightarrow> (d, Inl HTTP_404)
      | Some session_data \<Rightarrow>
     (let stop_interview = time_expired e session_data;
          transcript = s_full_transcript session_data in
      case interviewer_reply e d session_data of
        Inl err \<Rightarrow> (d, Inl (HTTP_500 err))
      | Inr ai_response \<Rightarrow>
     (case ai_response of
        JObject r \<Rightarrow>
          (let ai_question = dict_get r ''question'' (JString []);
               ai_feedback = dict_get r ''feedback'' (JString []);
               ai_stop = dict_get r ''stop_interview'' (JBool False);
               last_question_id = extract_last_question_id transcript;
               last_question = last_question_of transcript in
           case fst (evaluate_answer e last_question (r_answer req)) of
             Inl err \<Rightarrow> (d, Inl (HTTP_500 err))
           | Inr evaluation \<Rightarrow>
          (case store_answer e d (r_session_id req) last_question (r_answer req) evaluation
                  last_question_id of
             Inl err \<Rightarrow> (d, Inl (HTTP_500 err))
           | Inr d1 \<Rightarrow>
          (case transcript of
             None \<Rightarrow> (d1, Inl (HTTP_500 TypeError))
           | Some t \<Rightarrow>
               (let should_stop = (truthy ai_stop \<or> stop_interview);
                    d3 = update_transcript e d1 session_data req t ai_question should_stop
                in stop_or_continue e d3 session_data req t ai_question ai_feedback
                     should_stop))))
      | _ \<Rightarrow> (d, Inl (HTTP_500 AttributeError)))))"


section \<open>Concrete runs\<close>

text \<open>
  An environment to run the model in. A run replaces the model's replies, the texts
  \<^verbatim>\<open>json.loads\<close> decodes and the clock readings by its own; the values given for the
  float computations are the ones Python computes in the runs below, where every score
  averaged is 5 and the elapsed time is 0 or 301000 ms, which rounds to 5.0 minutes.
\<close>

definition base_env :: env where
  "base_env =
     \<lparr>llm = (\<lambda>request. []),
      json_loads = loads_table [],
      MAX_INTERVIEW_DURATION_MS = DEFAULT_MAX_INTERVIEW_DURATION_MS,
      now_fallback = 0,
      now_elapsed = 0,
      now_summary = 0,
      new_question_id = ''q-2'',
      round_minutes = (\<lambda>ms. Finite (of_int (ms div 60000))),
      score_of = (\<lambda>xs. Inr 50),
      seconds_of = (\<lambda>x. case x of JFloat (Finite r) \<Rightarrow> Inr (\<lfloor>r * 60\<rfloor>) | _ \<Rightarrow> Inl TypeError),
      str_of = (\<lambda>v. [])\<rparr>"

text \<open>The evaluator model replies with two of the seven fields.\<close>

definition partial_reply_env :: env where
  \<open>partial_reply_env = base_env
     \<lparr>llm := (\<lambda>request. ''{"relevance": 8, "short_summary": "Good"}''),
      json_loads := loads_table
        [(''{"relevance": 8, "short_summary": "Good"}'',
          JObject [(''relevance'', JInt 8), (''short_summary'', JString ''Good'')])]\<rparr>\<close>

text \<open>The evaluator model replies with a depth of 42.\<close>

definition out_of_range_env :: env where
  \<open>out_of_range_env = base_env
     \<lparr>llm := (\<lambda>request. ''{"depth": 42}''),
      json_loads := loads_table [(''{"depth": 42}'', JObject [(''depth'', JInt 42)])]\<rparr>\<close>

text \<open>
  The evaluator model replies with an object that ends in a trailing comma, which
  \<^verbatim>\<open>json.loads\<close> rejects, or with an empty array, which it decodes.
\<close>

definition trailing_comma_env :: env where
  \<open>trailing_comma_env = base_env\<lparr>llm := (\<lambda>request. ''{"relevance": 7,}'')\<rparr>\<close>

definition array_reply_env :: env where
  \<open>array_reply_env = base_env
     \<lparr>llm := (\<lambda>request. ''[]''),
      json_loads := loads_table [(''[]'', JArray [])]\<rparr>\<close>

text \<open>
  The summary model replies with an object that ends in a trailing comma, which
  \<^verbatim>\<open>json.loads\<close> rejects; the summary is generated 301000 ms after the start.
\<close>

definition broken_summary_env :: env where
  \<open>broken_summary_env = base_env
     \<lparr>llm := (\<lambda>request. ''{"overall_score": 7, "time_taken_minutes": 3,}''),
      now_summary := 301000\<rparr>\<close>

text \<open>
  An interview in progress: the interviewer model asks a next question and does not ask
  to stop, and the evaluator and summary models reply with an empty object.
\<close>

definition interview_replies :: "llm_request \<Rightarrow> string" where
  \<open>interview_replies request =
     (case request of
        InterviewerRequest resume job_description phase history stop_interview messages \<Rightarrow>
          ''{"question": "Thanks. What did you build?", "feedback": "ok", "stop_interview": false}''
      | EvaluatorRequest question_text answer_text \<Rightarrow> ''{}''
      | SummaryRequest resume job_description history start_time current_time \<Rightarrow> ''{}'')\<close>

definition interview_env :: env where
  \<open>interview_env = base_env
     \<lparr>llm := interview_replies,
      json_loads := loads_table
        [(''{"question": "Thanks. What did you build?", "feedback": "ok", "stop_interview": false}'',
          JObject [(''question'', JString ''Thanks. What did you build?''),
                   (''feedback'', JString ''ok''),
                   (''stop_interview'', JBool False)]),
         (''{}'', JObject [])]\<rparr>\<close>

definition opening_transcript :: string where
  "opening_transcript =
     ''[SYSTEM] Resume parsed for: Ann\<newline>[SYSTEM] Job description: Engineer\<newline>[QID] q-1\<newline>[AI] Hello Ann!\<newline>''"


text \<open>The same session, still running, and an answer that arrives 301000 ms after its start.\<close>

definition running_db :: db where
  "running_db =
     \<lparr>db_sessions =
        [\<lparr>s_id = ''s-1'', s_status = ''started'', s_started_at = Some 0,
          s_full_transcript = Some opening_transcript, s_template_id = Some ''t-1'',
          s_completion = None\<rparr>],
      db_answers = [],
      db_questions = []\<rparr>"

definition timed_out_env :: env where
  "timed_out_env = interview_env\<lparr>now_elapsed := 301000, now_summary := 301000\<rparr>"

text \<open>
  The same late answer, when the summary model replies with an object that ends in a
  trailing comma.
\<close>

definition summary_fails_replies :: "llm_request \<Rightarrow> string" where
  \<open>summary_fails_replies request =
     (case request of
        InterviewerRequest resume job_description phase history stop_interview messages \<Rightarrow>
          ''{"question": "Thanks. What did you build?", "feedback": "ok", "stop_interview": false}''
      | EvaluatorRequest question_text answer_text \<Rightarrow> ''{}''
      | SummaryRequest resume job_description history start_time current_time \<Rightarrow>
          ''{"overall_score": 7,}'')\<close>

definition summary_fails_env :: env where
  "summary_fails_env = timed_out_env\<lparr>llm := summary_fails_replies\<rparr>"

section \<open>Verified properties\<close>

subsection \<open>String helpers\<close>

lemma py_split_nl_nonempty: "py_split_nl s \<noteq> []"
  by (induction s) (auto split: list.splits)

lemma py_split_nl_line:
  "CHR 0x0A \<notin> set l \<Longrightarrow> py_split_nl (l @ CHR 0x0A # rest) = l # py_split_nl rest"
  by (induction l) (auto split: list.splits)

lemma py_split_nl_single: "CHR 0x0A \<notin> set l \<Longrightarrow> py_split_nl l = [l]"
  by (induction l) (auto split: list.splits)

lemma py_remove_Nil: "py_remove old [] = []"
  by (subst py_remove.simps) simp

lemma py_remove_Cons:
  "old \<noteq> [] \<Longrightarrow> py_remove old (c # cs) =
     (if startswith (c # cs) old then py_remove old (drop (length old) (c # cs))
      else c # py_remove old cs)"
  by (subst py_remove.simps) simp

lemma py_remove_absent: "\<not> py_in old s \<Longrightarrow> py_remove old s = s"
proof (induction s)
  case Nil
  then show ?case by (simp add: py_remove_Nil)
next
  case (Cons c cs)
  then have "old \<noteq> []" by (auto simp: startswith_def)
  with Cons show ?case by (simp add: py_remove_Cons)
qed

lemma py_remove_prefix: "old \<noteq> [] \<Longrightarrow> py_remove old (old @ s) = py_remove old s"
  by (cases old) (simp_all add: py_remove_Cons startswith_def)

lemma py_remove_tagged:
  "old \<noteq> [] \<Longrightarrow> \<not> py_in old s \<Longrightarrow> py_remove old (old @ s) = s"
  by (simp add: py_remove_prefix py_remove_absent)

lemma startswith_append: "startswith (p @ s) p"
  by (simp add: startswith_def)

lemma history_entry_line:
  assumes "\<not> py_in (tag_of ty) c"
  shows "history_entry (tag_of ty @ c) = [\<lparr>t_type = ty, content = c\<rparr>]"
proof (cases ty)
  case question
  have "TAG_AI \<noteq> []" by (simp add: TAG_AI_def)
  with assms question have "py_remove TAG_AI (TAG_AI @ c) = c"
    by (simp add: py_remove_tagged tag_of_def)
  with question show ?thesis
    by (simp add: history_entry_def tag_of_def startswith_append)
next
  case answer
  have "TAG_CANDIDATE \<noteq> []" by (simp add: TAG_CANDIDATE_def)
  with assms answer have "py_remove TAG_CANDIDATE (TAG_CANDIDATE @ c) = c"
    by (simp add: py_remove_tagged tag_of_def)
  moreover have "\<not> startswith (TAG_CANDIDATE @ c) TAG_AI"
    by (simp add: startswith_def TAG_AI_def TAG_CANDIDATE_def)
  ultimately show ?thesis using answer
    by (simp add: history_entry_def tag_of_def startswith_append)
qed

lemma tag_of_no_newline: "CHR 0x0A \<notin> set (tag_of ty)"
  by (cases ty) (simp_all add: tag_of_def TAG_AI_def TAG_CANDIDATE_def)

lemma turn_line_eq: "turn_line t = tag_of (t_type t) @ content t @ [CHR 0x0A]"
  by (cases "t_type t") (simp_all add: turn_line_def tag_of_def ai_line_def candidate_line_def)

lemma split_encode_open:
  assumes "\<forall>t\<in>set ts. CHR 0x0A \<notin> set (content t)" and "CHR 0x0A \<notin> set l"
  shows "py_split_nl (encode ts @ l) = map bare_line ts @ [l]"
  using assms
proof (induction ts)
  case Nil
  then show ?case by (simp add: encode_def py_split_nl_single)
next
  case (Cons t ts)
  have "CHR 0x0A \<notin> set (bare_line t)"
    using Cons.prems by (simp add: bare_line_def tag_of_no_newline)
  then have "py_split_nl (bare_line t @ CHR 0x0A # (encode ts @ l)) = bare_line t # py_split_nl (encode ts @ l)"
    by (rule py_split_nl_line)
  moreover have "encode (t # ts) @ l = bare_line t @ CHR 0x0A # (encode ts @ l)"
    by (simp add: encode_def turn_line_eq bare_line_def)
  ultimately show ?case using Cons by simp
qed

lemma py_strip_keep:
  assumes "s \<noteq> []" and "\<not> py_isspace (hd s)" and "\<not> py_isspace (last s)"
  shows "py_strip s = s"
proof -
  from assms have "dropWhile py_isspace s = s" by (cases s) auto
  moreover from assms have "dropWhile py_isspace (rev s) = rev s"
    by (cases "rev s") (auto simp: last_rev hd_rev)
  ultimately show ?thesis by (simp add: py_strip_def)
qed

lemma py_strip_trailing_newline:
  assumes "s \<noteq> []" and "\<not> py_isspace (hd s)" and "\<not> py_isspace (last s)"
  shows "py_strip (s @ [CHR 0x0A]) = s"
proof -
  from assms have "dropWhile py_isspace (s @ [CHR 0x0A]) = s @ [CHR 0x0A]" by (cases s) auto
  moreover have "py_isspace (CHR 0x0A)" by (simp add: py_isspace_def)
  moreover from assms have "dropWhile py_isspace (rev s) = rev s"
    by (cases "rev s") (auto simp: last_rev hd_rev)
  ultimately show ?thesis by (simp add: py_strip_def)
qed


lemma hd_turn_line: "\<not> py_isspace (hd (bare_line t @ r))"
  by (cases "t_type t") (simp_all add: bare_line_def tag_of_def TAG_AI_def TAG_CANDIDATE_def py_isspace_def)

lemma hd_encode_open: "\<not> py_isspace (hd (encode ts @ bare_line t))"
proof (cases ts)
  case Nil
  then show ?thesis using hd_turn_line [of t "[]"] by (simp add: encode_def)
next
  case (Cons u us)
  have "encode (u # us) @ bare_line t = bare_line u @ (CHR 0x0A # encode us @ bare_line t)"
    by (simp add: encode_def turn_line_eq bare_line_def)
  with Cons show ?thesis using hd_turn_line [of u] by simp
qed

lemma bare_line_nonempty: "bare_line t \<noteq> []"
  by (cases "t_type t") (simp_all add: bare_line_def tag_of_def TAG_AI_def TAG_CANDIDATE_def)

lemma history_entries_bare:
  "\<forall>t\<in>set ts. \<not> py_in (tag_of (t_type t)) (content t) \<Longrightarrow>
   concat (map (history_entry \<circ> bare_line) ts) = ts"
  by (induction ts) (simp_all add: bare_line_def history_entry_line)

subsection \<open>Transcript round trip\<close>

lemmas transcript_eval =
  build_history_from_transcript_def encode_def turn_line_def ai_line_def candidate_line_def
  py_strip_def py_isspace_def startswith_def history_entry_def TAG_AI_def TAG_CANDIDATE_def
  py_remove_Nil py_remove_Cons

text \<open>
  Claim C1, as the code has it. Decoding the transcript that encodes a list of turns gives
  the list back when no content holds a newline, no content holds the tag of its own
  line (\<^verbatim>\<open>str.replace\<close> removes every occurrence of the tag, not only the leading
  one), and the content of the last turn is non-empty and does not end in whitespace
  (\<^verbatim>\<open>transcript.strip()\<close> trims the end of the transcript before it is split).
\<close>

theorem transcript_roundtrip:
  assumes nl: "\<forall>t\<in>set turns. CHR 0x0A \<notin> set (content t)"
    and tag: "\<forall>t\<in>set turns. \<not> py_in (tag_of (t_type t)) (content t)"
    and fin: "turns \<noteq> [] \<longrightarrow>
              content (last turns) \<noteq> [] \<and> \<not> py_isspace (last (content (last turns)))"
  shows "build_history_from_transcript (Some (encode turns)) = turns"
proof (cases turns rule: rev_cases)
  case Nil
  then show ?thesis by (simp add: build_history_from_transcript_def encode_def)
next
  case (snoc ts t)
  define s where "s = encode ts @ bare_line t"
  have enc: "encode turns = s @ [CHR 0x0A]"
    using snoc by (simp add: s_def encode_def turn_line_eq bare_line_def)
  have s_ne: "s \<noteq> []" by (simp add: s_def bare_line_nonempty)
  have s_hd: "\<not> py_isspace (hd s)" unfolding s_def by (rule hd_encode_open)
  have "last s = last (content t)"
    using fin snoc by (simp add: s_def bare_line_def)
  with fin snoc have s_last: "\<not> py_isspace (last s)" by simp
  have strip: "py_strip (encode turns) = s"
    unfolding enc using s_ne s_hd s_last by (rule py_strip_trailing_newline)
  have "CHR 0x0A \<notin> set (bare_line t)"
    using nl snoc by (simp add: bare_line_def tag_of_no_newline)
  with nl snoc have lines: "py_split_nl s = map bare_line turns"
    by (simp add: s_def split_encode_open)
  have "encode turns \<noteq> []" by (simp add: enc)
  then show ?thesis
    using strip lines tag by (simp add: build_history_from_transcript_def history_entries_bare)
qed

theorem transcript_roundtrip_witness:
  "build_history_from_transcript (Some (encode
     [\<lparr>t_type = question, content = ''Tell me about yourself''\<rparr>,
      \<lparr>t_type = answer, content = ''I am an engineer''\<rparr>])) =
     [\<lparr>t_type = question, content = ''Tell me about yourself''\<rparr>,
      \<lparr>t_type = answer, content = ''I am an engineer''\<rparr>]"
  by (rule transcript_roundtrip)
     (simp_all add: tag_of_def TAG_AI_def TAG_CANDIDATE_def startswith_def py_isspace_def)

text \<open>
  Claim C1 as stated fails: neither content below holds a newline, yet the answer comes
  back without the space it ended in.
\<close>

theorem transcript_roundtrip_counterexample:
  "CHR 0x0A \<notin> set ''Hi'' \<and> CHR 0x0A \<notin> set ''yes '' \<and>
   build_history_from_transcript (Some (encode
     [\<lparr>t_type = question, content = ''Hi''\<rparr>, \<lparr>t_type = answer, content = ''yes ''\<rparr>])) =
     [\<lparr>t_type = question, content = ''Hi''\<rparr>, \<lparr>t_type = answer, content = ''yes''\<rparr>]"
  by (simp add: transcript_eval)

subsection \<open>History reconstruction\<close>

lemma startswith_split: "startswith s p \<Longrightarrow> s = p @ drop (length p) s"
  by (metis append_take_drop_id startswith_def)

lemma history_entry_types: "map t_type (history_entry line) = map t_type (spec_entry line)"
  by (simp add: history_entry_def spec_entry_def)

lemma history_entry_spec: "\<not> tag_recurs line \<Longrightarrow> history_entry line = spec_entry line"
proof -
  assume nr: "\<not> tag_recurs line"
  have ai: "TAG_AI \<noteq> []" by (simp add: TAG_AI_def)
  have ca: "TAG_CANDIDATE \<noteq> []" by (simp add: TAG_CANDIDATE_def)
  show ?thesis
  proof (cases "startswith line TAG_AI")
    case True
    then have "line = TAG_AI @ drop (length TAG_AI) line" by (rule startswith_split)
    moreover from nr True have "\<not> py_in TAG_AI (drop (length TAG_AI) line)"
      by (simp add: tag_recurs_def)
    ultimately have "py_remove TAG_AI line = drop (length TAG_AI) line"
      using py_remove_tagged [OF ai] by metis
    with True show ?thesis by (simp add: history_entry_def spec_entry_def)
  next
    case False
    show ?thesis
    proof (cases "startswith line TAG_CANDIDATE")
      case True
      then have "line = TAG_CANDIDATE @ drop (length TAG_CANDIDATE) line" by (rule startswith_split)
      moreover from nr True False have "\<not> py_in TAG_CANDIDATE (drop (length TAG_CANDIDATE) line)"
        by (simp add: tag_recurs_def)
      ultimately have "py_remove TAG_CANDIDATE line = drop (length TAG_CANDIDATE) line"
        using py_remove_tagged [OF ca] by metis
      with True False show ?thesis by (simp add: history_entry_def spec_entry_def)
    next
      case F2: False
      with False show ?thesis by (simp add: history_entry_def spec_entry_def)
    qed
  qed
qed

lemma history_types_lines:
  "map t_type (concat (map history_entry ls)) = map t_type (concat (map spec_entry ls))"
  by (induction ls) (simp_all add: history_entry_types)

lemma history_spec_lines:
  "\<forall>line\<in>set ls. \<not> tag_recurs line \<Longrightarrow>
   concat (map history_entry ls) = concat (map spec_entry ls)"
  by (induction ls) (simp_all add: history_entry_spec)

lemma not_both_tags:
  assumes "startswith line TAG_CANDIDATE"
  shows "\<not> startswith line TAG_AI"
proof -
  from assms have "line = TAG_CANDIDATE @ drop (length TAG_CANDIDATE) line"
    by (rule startswith_split)
  then obtain r where "line = TAG_CANDIDATE @ r" ..
  then show ?thesis by (simp add: startswith_def TAG_AI_def TAG_CANDIDATE_def)
qed

lemma question_count_lines:
  "length (filter (\<lambda>u. t_type u = question) (concat (map history_entry ls))) =
   length (filter (\<lambda>line. startswith line TAG_AI) ls)"
  by (induction ls) (simp_all add: history_entry_def)

lemma answer_count_lines:
  "length (filter (\<lambda>u. t_type u = answer) (concat (map history_entry ls))) =
   length (filter (\<lambda>line. startswith line TAG_CANDIDATE) ls)"
  by (induction ls) (auto simp: history_entry_def dest: not_both_tags)

lemma build_history_lines:
  "build_history_from_transcript (Some t) = concat (map history_entry (py_split_nl (py_strip t)))"
  by (simp add: build_history_from_transcript_def py_strip_def history_entry_def startswith_def
      TAG_AI_def TAG_CANDIDATE_def)

lemmas history_eval =
  spec_history_def spec_entry_def tag_recurs_def AI_lines_def CANDIDATE_lines_def
  py_strip_def py_isspace_def startswith_def TAG_AI_def TAG_CANDIDATE_def

text \<open>
  Claim C2 does not hold of the code. \<^verbatim>\<open>transcript.strip()\<close> runs before the split, so
  a last line \<^verbatim>\<open>[CANDIDATE] \<close> (an empty answer, as \<^verbatim>\<open>handle_answer\<close> appends it
  before building the history for the summary) loses the space that ends its tag and is
  no longer recognised: the transcript below has one \<^verbatim>\<open>[AI] \<close> line and one
  \<^verbatim>\<open>[CANDIDATE] \<close> line, and the history rebuilt from it has no answer turn. The
  same line followed by another one is parsed.
\<close>

theorem history_drops_final_empty_answer:
  "spec_history ''[AI] Hi\<newline>[CANDIDATE] \<newline>'' =
     [\<lparr>t_type = question, content = ''Hi''\<rparr>, \<lparr>t_type = answer, content = ''''\<rparr>] \<and>
   build_history_from_transcript (Some ''[AI] Hi\<newline>[CANDIDATE] \<newline>'') =
     [\<lparr>t_type = question, content = ''Hi''\<rparr>] \<and>
   build_history_from_transcript (Some ''[AI] Hi\<newline>[CANDIDATE] \<newline>[AI] Next\<newline>'') =
     [\<lparr>t_type = question, content = ''Hi''\<rparr>, \<lparr>t_type = answer, content = ''''\<rparr>,
      \<lparr>t_type = question, content = ''Next''\<rparr>]"
  by (simp add: transcript_eval spec_history_def spec_entry_def)

subsection \<open>Recommendation normalization\<close>

lemma startswith_prefix: "startswith s p = prefix p s"
  by (metis prefix_def startswith_def take_is_prefix append_eq_conv_conj)

lemma py_in_sublist: "py_in sub s = sublist sub s"
  by (induction s) (simp_all add: sublist_Cons_right startswith_prefix)

lemma sublist_dropWhile:
  "kw \<noteq> [] \<Longrightarrow> \<not> P (hd kw) \<Longrightarrow> sublist kw (dropWhile P s) = sublist kw s"
proof (induction s)
  case Nil
  then show ?case by simp
next
  case (Cons c cs)
  show ?case
  proof (cases "P c")
    case True
    with Cons.prems have "\<not> prefix kw (c # cs)" by (cases kw) auto
    with True Cons show ?thesis by (simp add: sublist_Cons_right)
  next
    case False
    then show ?thesis by simp
  qed
qed

lemma sublist_py_strip:
  assumes "kw \<noteq> []" and "\<not> py_isspace (hd kw)" and "\<not> py_isspace (last kw)"
  shows "sublist kw (py_strip s) = sublist kw s"
proof -
  have "sublist kw (py_strip s) = sublist (rev kw) (dropWhile py_isspace (rev (dropWhile py_isspace s)))"
    by (simp add: py_strip_def sublist_rev_right)
  also have "\<dots> = sublist (rev kw) (rev (dropWhile py_isspace s))"
    using assms by (intro sublist_dropWhile) (simp_all add: hd_rev)
  also have "\<dots> = sublist kw (dropWhile py_isspace s)" by simp
  also have "\<dots> = sublist kw s" using assms by (intro sublist_dropWhile)
  finally show ?thesis .
qed

lemma contains_ci_sublist: "contains_ci kw text = sublist kw (py_lower text)"
proof
  assume "contains_ci kw text"
  then obtain pre w suf where "text = pre @ w @ suf" and "py_lower w = kw"
    by (auto simp: contains_ci_def)
  then show "sublist kw (py_lower text)" by (auto simp: py_lower_def sublist_def)
next
  assume "sublist kw (py_lower text)"
  then obtain ps ss where eq: "map py_lower_char text = ps @ kw @ ss"
    by (auto simp: sublist_def py_lower_def)
  define w where "w = take (length kw) (drop (length ps) text)"
  have "map py_lower_char w = take (length kw) (drop (length ps) (map py_lower_char text))"
    by (simp add: w_def take_map drop_map)
  also have "\<dots> = kw" by (simp add: eq)
  finally have low: "py_lower w = kw" by (simp add: py_lower_def)
  have "text = take (length ps) text @ w @ drop (length kw) (drop (length ps) text)"
    unfolding w_def by (simp only: append_take_drop_id)
  with low show "contains_ci kw text" unfolding contains_ci_def by blast
qed

lemma contains_ci_code [code]: "contains_ci kw text = py_in kw (py_lower text)"
  by (simp add: contains_ci_sublist py_in_sublist)

lemma py_in_strip_lower:
  assumes "kw \<noteq> []" and "\<not> py_isspace (hd kw)" and "\<not> py_isspace (last kw)"
  shows "py_in kw (py_strip (py_lower rec)) = contains_ci kw rec"
  using assms by (simp add: py_in_sublist sublist_py_strip contains_ci_sublist)

text \<open>
  Claim C9. \<^verbatim>\<open>_map_recommendation\<close> returns a code for every text: a text holding
  ``strong'' anywhere, in any letter case, gets \<^verbatim>\<open>strong_hire\<close>; otherwise one holding
  ``moderate'' or ``fit'' gets \<^verbatim>\<open>hire\<close>; every other text, with or without ``needs''
  or ``improvement'', gets \<^verbatim>\<open>maybe\<close>.
\<close>

theorem recommendation_normalization:
  "(contains_ci ''strong'' rec \<longrightarrow> map_recommendation rec = ''strong_hire'') \<and>
   (\<not> contains_ci ''strong'' rec \<and> (contains_ci ''moderate'' rec \<or> contains_ci ''fit'' rec) \<longrightarrow>
      map_recommendation rec = ''hire'') \<and>
   (\<not> contains_ci ''strong'' rec \<and> \<not> contains_ci ''moderate'' rec \<and> \<not> contains_ci ''fit'' rec \<longrightarrow>
      map_recommendation rec = ''maybe'') \<and>
   map_recommendation rec \<in> {''strong_hire'', ''hire'', ''maybe''}"
proof -
  have "py_in ''strong'' (py_strip (py_lower rec)) = contains_ci ''strong'' rec"
    by (rule py_in_strip_lower) (simp_all add: py_isspace_def)
  moreover have "py_in ''moderate'' (py_strip (py_lower rec)) = contains_ci ''moderate'' rec"
    by (rule py_in_strip_lower) (simp_all add: py_isspace_def)
  moreover have "py_in ''fit'' (py_strip (py_lower rec)) = contains_ci ''fit'' rec"
    by (rule py_in_strip_lower) (simp_all add: py_isspace_def)
  ultimately show ?thesis by (simp add: map_recommendation_def Let_def)
qed


theorem recommendation_normalization_witness:
  "map_recommendation ''Strong Fit'' = ''strong_hire'' \<and>
   map_recommendation ''Moderate Fit'' = ''hire'' \<and>
   map_recommendation ''Needs Improvement'' = ''maybe'' \<and>
   map_recommendation ''N/A'' = ''maybe''"
proof -
  have l1: "py_lower ''Strong Fit'' = ''strong fit''" by code_simp
  have l2: "py_lower ''Moderate Fit'' = ''moderate fit''" by code_simp
  have l3: "py_lower ''Needs Improvement'' = ''needs improvement''" by code_simp
  have l4: "py_lower ''N/A'' = ''n/a''" by code_simp
  have "map_recommendation ''Strong Fit'' = ''strong_hire''"
    using recommendation_normalization [of "''Strong Fit''", THEN conjunct1]
    by (simp add: contains_ci_code l1 startswith_def)
  moreover have "map_recommendation ''Moderate Fit'' = ''hire''"
    using recommendation_normalization [of "''Moderate Fit''", THEN conjunct2, THEN conjunct1]
    by (simp add: contains_ci_code l2 startswith_def)
  moreover have "map_recommendation ''Needs Improvement'' = ''maybe''"
    using recommendation_normalization
      [of "''Needs Improvement''", THEN conjunct2, THEN conjunct2, THEN conjunct1]
    by (simp add: contains_ci_code l3 startswith_def)
  moreover have "map_recommendation ''N/A'' = ''maybe''"
    using recommendation_normalization
      [of "''N/A''", THEN conjunct2, THEN conjunct2, THEN conjunct1]
    by (simp add: contains_ci_code l4 startswith_def)
  ultimately show ?thesis by blast
qed

subsection \<open>The evaluator on an answer with nothing in it\<close>

lemma map_of_dict_set: "map_of (dict_set k v d) k' = (if k' = k then Some v else map_of d k')"
  by (induction d) auto

lemma map_of_fill_defaults:
  "map_of (fill_defaults defaults d) k =
     (case map_of d k of Some v \<Rightarrow> Some v | None \<Rightarrow> map_of defaults k)"
proof (induction defaults arbitrary: d)
  case Nil
  then show ?case by (simp split: option.splits)
next
  case (Cons p defaults)
  then show ?case by (cases p) (auto simp: map_of_dict_set split: option.splits)
qed

lemma dropWhile_all_Nil: "(\<forall>x\<in>set (dropWhile P xs). P x) \<Longrightarrow> dropWhile P xs = []"
  using hd_dropWhile [of P xs] by (cases "dropWhile P xs") auto

lemma py_strip_Nil_iff: "py_strip s = [] \<longleftrightarrow> (\<forall>c\<in>set s. py_isspace c)"
proof
  assume "py_strip s = []"
  then have "\<forall>x\<in>set (dropWhile py_isspace s). py_isspace x"
    by (simp add: py_strip_def dropWhile_eq_Nil_conv)
  then have "dropWhile py_isspace s = []" by (rule dropWhile_all_Nil)
  then show "\<forall>c\<in>set s. py_isspace c" by (simp add: dropWhile_eq_Nil_conv)
next
  assume "\<forall>c\<in>set s. py_isspace c"
  then have d: "dropWhile py_isspace s = []" by (simp add: dropWhile_eq_Nil_conv)
  show "py_strip s = []" by (simp only: py_strip_def d rev.simps dropWhile.simps)
qed

lemma blank_iff: "blank s = (\<forall>c\<in>set s. py_isspace c)"
  by (auto simp: blank_def py_strip_Nil_iff)

text \<open>
  Claim C3. For an empty answer and for an answer of whitespace only,
  \<^verbatim>\<open>evaluate_answer\<close> returns the evaluation with the six dimensions at 0 and the
  summary ``No answer provided'', and sends nothing to the language model.
\<close>

theorem evaluate_blank_answer:
  "answer_text = [] \<or> (\<forall>c\<in>set answer_text. py_isspace c) \<Longrightarrow>
   evaluate_answer e question_text answer_text =
     (Inr (JObject
        [(''relevance'', JInt 0), (''depth'', JInt 0), (''clarity'', JInt 0),
         (''communication'', JInt 0), (''problem_solving'', JInt 0),
         (''practical_experience'', JInt 0),
         (''short_summary'', JString ''No answer provided'')]),
      [])"
proof -
  assume "answer_text = [] \<or> (\<forall>c\<in>set answer_text. py_isspace c)"
  then have "blank answer_text" by (auto simp: blank_iff)
  then show ?thesis by (simp add: evaluate_answer_def NO_ANSWER_EVALUATION_def)
qed

theorem evaluate_blank_answer_witness:
  "evaluate_answer base_env ''Why?'' '''' =
     (Inr (JObject
        [(''relevance'', JInt 0), (''depth'', JInt 0), (''clarity'', JInt 0),
         (''communication'', JInt 0), (''problem_solving'', JInt 0),
         (''practical_experience'', JInt 0),
         (''short_summary'', JString ''No answer provided'')]),
      []) \<and>
   evaluate_answer base_env ''Why?'' ''   '' =
     (Inr (JObject
        [(''relevance'', JInt 0), (''depth'', JInt 0), (''clarity'', JInt 0),
         (''communication'', JInt 0), (''problem_solving'', JInt 0),
         (''practical_experience'', JInt 0),
         (''short_summary'', JString ''No answer provided'')]),
      [])"
  using evaluate_blank_answer [of "''''" base_env "''Why?''"]
    evaluate_blank_answer [of "''   ''" base_env "''Why?''"]
  by (simp add: py_isspace_def)

subsection \<open>The response parser\<close>

lemma clean_json_response_decoded:
  "loads (strip_fences text) = Inr v \<Longrightarrow> clean_json_response loads text = Inr v"
  by (simp add: clean_json_response_def)

lemma clean_json_response_no_braces:
  "loads (strip_fences text) = Inl JSONDecodeError \<Longrightarrow>
   brace_region (strip_fences text) = None \<Longrightarrow>
   clean_json_response loads text = Inr (JObject [])"
  by (simp add: clean_json_response_def)

lemma clean_json_response_second_parse:
  "loads (strip_fences text) = Inl JSONDecodeError \<Longrightarrow>
   brace_region (strip_fences text) = Some m \<Longrightarrow>
   clean_json_response loads text = loads m"
  by (simp add: clean_json_response_def)

lemmas parser_eval =
  clean_json_response_def strip_fences_def sub_leading_def brace_region_def loads_table_def
  py_strip_def py_isspace_def startswith_def

text \<open>
  Claim C5 does not hold of the code. When the cleaned text does not decode and holds a
  brace-delimited region, the parser returns whatever the second \<^verbatim>\<open>json.loads\<close> does,
  and that call is outside the \<^verbatim>\<open>try\<close>: on the reply below, whose region ends in a
  trailing comma, \<^verbatim>\<open>_clean_json_response\<close> raises \<^verbatim>\<open>JSONDecodeError\<close> instead of
  returning the empty structure.
\<close>

theorem clean_json_response_raises:
  \<open>clean_json_response (loads_table []) ''Here is the result: {"depth": 7,}'' =
     Inl JSONDecodeError\<close>
  by (simp add: parser_eval)

subsection \<open>Defaults for missing evaluation fields\<close>

lemma evaluate_answer_called:
  assumes "snd (evaluate_answer e question_text answer_text) = [request]"
  shows "\<not> blank answer_text \<and> request = EvaluatorRequest question_text answer_text"
  using assms by (cases "blank answer_text") (simp_all add: evaluate_answer_def Let_def)

lemma evaluate_answer_object:
  assumes "\<not> blank answer_text"
    and "clean_json_response (json_loads e) (llm e (EvaluatorRequest question_text answer_text)) =
           Inr (JObject d)"
  shows "fst (evaluate_answer e question_text answer_text) =
           Inr (JObject (fill_defaults EVALUATION_DEFAULTS d))"
  using assms by (simp add: evaluate_answer_def Let_def ensure_fields_def)

lemma evaluation_default_dimension:
  "k \<in> set DIMENSIONS \<Longrightarrow> map_of EVALUATION_DEFAULTS k = Some (JInt 5)"
  by (auto simp: DIMENSIONS_def EVALUATION_DEFAULTS_def)

lemma evaluation_default_summary:
  "map_of EVALUATION_DEFAULTS ''short_summary'' = Some (JString ''Unable to evaluate'')"
  by (simp add: EVALUATION_DEFAULTS_def)

text \<open>
  When \<^verbatim>\<open>evaluate_answer\<close> is given a non-empty answer and consults the language
  model, and the parser turns the reply into a dictionary, the evaluation is that
  dictionary with the defaults filled in. A missing \<^verbatim>\<open>depth\<close>, like any missing
  dimension, is 5; a missing summary is ``Unable to evaluate''; every field the
  dictionary has keeps its value; nothing else is added.
\<close>

lemma evaluate_backfills_defaults:
  assumes "answer_text \<noteq> []"
    and "snd (evaluate_answer e question_text answer_text) = [request]"
    and "clean_json_response (json_loads e) (llm e request) = Inr (JObject d)"
  shows "fst (evaluate_answer e question_text answer_text) =
           Inr (JObject (fill_defaults EVALUATION_DEFAULTS d)) \<and>
         (map_of d ''depth'' = None \<longrightarrow>
            map_of (fill_defaults EVALUATION_DEFAULTS d) ''depth'' = Some (JInt 5)) \<and>
         (\<forall>k\<in>set DIMENSIONS. map_of d k = None \<longrightarrow>
            map_of (fill_defaults EVALUATION_DEFAULTS d) k = Some (JInt 5)) \<and>
         (map_of d ''short_summary'' = None \<longrightarrow>
            map_of (fill_defaults EVALUATION_DEFAULTS d) ''short_summary'' =
              Some (JString ''Unable to evaluate'')) \<and>
         (\<forall>k v. map_of d k = Some v \<longrightarrow>
            map_of (fill_defaults EVALUATION_DEFAULTS d) k = Some v) \<and>
         (\<forall>k. map_of d k = None \<and> map_of EVALUATION_DEFAULTS k = None \<longrightarrow>
            map_of (fill_defaults EVALUATION_DEFAULTS d) k = None)"
proof -
  from assms(2) have nb: "\<not> blank answer_text"
    and req: "request = EvaluatorRequest question_text answer_text"
    using evaluate_answer_called by blast+
  from nb assms(3) have "fst (evaluate_answer e question_text answer_text) =
      Inr (JObject (fill_defaults EVALUATION_DEFAULTS d))"
    unfolding req by (rule evaluate_answer_object)
  moreover have "''depth'' \<in> set DIMENSIONS" by (simp add: DIMENSIONS_def)
  ultimately show ?thesis
    by (simp add: map_of_fill_defaults evaluation_default_dimension evaluation_default_summary)
qed

lemmas evaluate_eval =
  evaluate_answer_def blank_def ensure_fields_def EVALUATION_DEFAULTS_def base_env_def

lemma evaluate_backfills_defaults_example:
  "fst (evaluate_answer partial_reply_env ''Why?'' ''Because'') =
     Inr (JObject
       [(''relevance'', JInt 8), (''short_summary'', JString ''Good''),
        (''depth'', JInt 5), (''clarity'', JInt 5), (''communication'', JInt 5),
        (''problem_solving'', JInt 5), (''practical_experience'', JInt 5)])"
proof -
  have "snd (evaluate_answer partial_reply_env ''Why?'' ''Because'') =
      [EvaluatorRequest ''Why?'' ''Because'']"
    by (simp add: evaluate_eval parser_eval Let_def)
  moreover have "clean_json_response (json_loads partial_reply_env)
      (llm partial_reply_env (EvaluatorRequest ''Why?'' ''Because'')) =
      Inr (JObject [(''relevance'', JInt 8), (''short_summary'', JString ''Good'')])"
    by (simp add: partial_reply_env_def parser_eval base_env_def)
  ultimately show ?thesis
    using evaluate_backfills_defaults
      [of "''Because''" partial_reply_env "''Why?''" "EvaluatorRequest ''Why?'' ''Because''"
          "[(''relevance'', JInt 8), (''short_summary'', JString ''Good'')]", THEN conjunct1]
    by (simp add: EVALUATION_DEFAULTS_def)
qed

text \<open>
  Claim C8 does not hold of the code for every reply: a malformed reply is an error.
  On a reply whose object ends in a trailing comma the parser raises, as for claim C5,
  and on a reply that decodes to an array the loop that fills in the defaults raises
  \<^verbatim>\<open>TypeError\<close>; in both runs \<^verbatim>\<open>evaluate_answer\<close> returns no evaluation.
\<close>

theorem evaluate_raises_on_malformed_reply:
  "evaluate_answer trailing_comma_env ''Why?'' ''Because'' =
     (Inl JSONDecodeError, [EvaluatorRequest ''Why?'' ''Because'']) \<and>
   evaluate_answer array_reply_env ''Why?'' ''Because'' =
     (Inl TypeError, [EvaluatorRequest ''Why?'' ''Because''])"
  by (simp add: evaluate_eval parser_eval trailing_comma_env_def array_reply_env_def Let_def)

subsection \<open>The range of the evaluation dimensions\<close>

lemma evaluation_in_range_fill_iff:
  "evaluation_in_range (JObject (fill_defaults EVALUATION_DEFAULTS d)) \<longleftrightarrow>
   (\<forall>k\<in>set DIMENSIONS. \<forall>v. map_of d k = Some v \<longrightarrow> dimension_ok v)"
proof -
  have five: "dimension_ok (JInt 5)" by (simp add: dimension_ok_def)
  have "evaluation_in_range (JObject (fill_defaults EVALUATION_DEFAULTS d)) \<longleftrightarrow>
      (\<forall>k\<in>set DIMENSIONS.
         case map_of (fill_defaults EVALUATION_DEFAULTS d) k of
           Some v \<Rightarrow> dimension_ok v | None \<Rightarrow> False)"
    by (simp add: evaluation_in_range_def list_all_iff)
  also have "\<dots> \<longleftrightarrow> (\<forall>k\<in>set DIMENSIONS. \<forall>v. map_of d k = Some v \<longrightarrow> dimension_ok v)"
    using five
    by (auto simp: map_of_fill_defaults evaluation_default_dimension split: option.splits)
  finally show ?thesis .
qed

lemma filled_dimension:
  "k \<in> set DIMENSIONS \<Longrightarrow>
   dimension_of (JObject (fill_defaults EVALUATION_DEFAULTS d)) k =
     (case map_of d k of Some v \<Rightarrow> Some v | None \<Rightarrow> Some (JInt 5))"
  by (simp add: dimension_of_def map_of_fill_defaults evaluation_default_dimension
      split: option.splits)

lemma no_answer_dimension:
  "k \<in> set DIMENSIONS \<Longrightarrow> dimension_of NO_ANSWER_EVALUATION k = Some (JInt 0)"
  by (auto simp: dimension_of_def NO_ANSWER_EVALUATION_def DIMENSIONS_def)

text \<open>
  Claim C10, as the code has it. \<^verbatim>\<open>evaluate_answer\<close> never checks or clamps a score.
  For an answer with nothing in it, it returns the evaluation whose six dimensions are 0.
  For any other answer, when the reply parses to a dictionary, it returns the evaluation
  in which each of the six dimensions is the value the dictionary carries for it,
  unchanged, or the default 5 when the dictionary has none; so the six dimensions are
  integers from 0 to 10 exactly when every dimension present in the dictionary is one.
\<close>

theorem evaluation_dimensions_in_range:
  "(blank answer_text \<longrightarrow>
      fst (evaluate_answer e question_text answer_text) = Inr NO_ANSWER_EVALUATION \<and>
      (\<forall>k\<in>set DIMENSIONS. dimension_of NO_ANSWER_EVALUATION k = Some (JInt 0)) \<and>
      evaluation_in_range NO_ANSWER_EVALUATION) \<and>
   (\<not> blank answer_text \<and>
    clean_json_response (json_loads e) (llm e (EvaluatorRequest question_text answer_text)) =
      Inr (JObject d) \<longrightarrow>
      fst (evaluate_answer e question_text answer_text) =
        Inr (JObject (fill_defaults EVALUATION_DEFAULTS d)) \<and>
      (\<forall>k\<in>set DIMENSIONS.
         dimension_of (JObject (fill_defaults EVALUATION_DEFAULTS d)) k =
           (case map_of d k of Some v \<Rightarrow> Some v | None \<Rightarrow> Some (JInt 5))) \<and>
      (evaluation_in_range (JObject (fill_defaults EVALUATION_DEFAULTS d)) \<longleftrightarrow>
         (\<forall>k\<in>set DIMENSIONS. \<forall>v. map_of d k = Some v \<longrightarrow> dimension_ok v)))"
proof (intro conjI impI)
  assume "blank answer_text"
  then show "fst (evaluate_answer e question_text answer_text) = Inr NO_ANSWER_EVALUATION"
    by (simp add: evaluate_answer_def)
next
  show "\<forall>k\<in>set DIMENSIONS. dimension_of NO_ANSWER_EVALUATION k = Some (JInt 0)"
    by (simp add: no_answer_dimension)
next
  show "evaluation_in_range NO_ANSWER_EVALUATION"
    by (simp add: evaluation_in_range_def NO_ANSWER_EVALUATION_def DIMENSIONS_def dimension_ok_def)
next
  assume a: "\<not> blank answer_text \<and>
    clean_json_response (json_loads e) (llm e (EvaluatorRequest question_text answer_text)) =
      Inr (JObject d)"
  from a have nb: "\<not> blank answer_text" by (rule conjunct1)
  from a have p: "clean_json_response (json_loads e)
      (llm e (EvaluatorRequest question_text answer_text)) = Inr (JObject d)"
    by (rule conjunct2)
  from nb p show "fst (evaluate_answer e question_text answer_text) =
      Inr (JObject (fill_defaults EVALUATION_DEFAULTS d))"
    by (rule evaluate_answer_object)
next
  show "\<forall>k\<in>set DIMENSIONS.
         dimension_of (JObject (fill_defaults EVALUATION_DEFAULTS d)) k =
           (case map_of d k of Some v \<Rightarrow> Some v | None \<Rightarrow> Some (JInt 5))"
    by (simp add: filled_dimension)
next
  show "evaluation_in_range (JObject (fill_defaults EVALUATION_DEFAULTS d)) \<longleftrightarrow>
         (\<forall>k\<in>set DIMENSIONS. \<forall>v. map_of d k = Some v \<longrightarrow> dimension_ok v)"
    by (rule evaluation_in_range_fill_iff)
qed

theorem evaluation_dimensions_in_range_witness:
  "fst (evaluate_answer base_env ''Why?'' ''   '') = Inr NO_ANSWER_EVALUATION \<and>
   fst (evaluate_answer partial_reply_env ''Why?'' ''Because'') =
     Inr (JObject
       [(''relevance'', JInt 8), (''short_summary'', JString ''Good''),
        (''depth'', JInt 5), (''clarity'', JInt 5), (''communication'', JInt 5),
        (''problem_solving'', JInt 5), (''practical_experience'', JInt 5)]) \<and>
   evaluation_in_range (JObject
       [(''relevance'', JInt 8), (''short_summary'', JString ''Good''),
        (''depth'', JInt 5), (''clarity'', JInt 5), (''communication'', JInt 5),
        (''problem_solving'', JInt 5), (''practical_experience'', JInt 5)])"
proof -
  let ?d = "[(''relevance'', JInt 8), (''short_summary'', JString ''Good'')]"
  have b: "blank ''   ''" by (simp add: blank_def py_strip_def py_isspace_def)
  have nb: "\<not> blank ''Because''" by (simp add: blank_def py_strip_def py_isspace_def)
  have p: "clean_json_response (json_loads partial_reply_env)
      (llm partial_reply_env (EvaluatorRequest ''Why?'' ''Because'')) = Inr (JObject ?d)"
    by (simp add: partial_reply_env_def parser_eval base_env_def)
  have ok: "\<forall>k\<in>set DIMENSIONS. \<forall>v. map_of ?d k = Some v \<longrightarrow> dimension_ok v"
    by (simp add: DIMENSIONS_def dimension_ok_def)
  have f: "fill_defaults EVALUATION_DEFAULTS ?d =
      [(''relevance'', JInt 8), (''short_summary'', JString ''Good''),
       (''depth'', JInt 5), (''clarity'', JInt 5), (''communication'', JInt 5),
       (''problem_solving'', JInt 5), (''practical_experience'', JInt 5)]"
    by (simp add: EVALUATION_DEFAULTS_def)
  from evaluation_dimensions_in_range [of "''   ''" base_env "''Why?''" ?d, THEN conjunct1] b
  have c1: "fst (evaluate_answer base_env ''Why?'' ''   '') = Inr NO_ANSWER_EVALUATION"
    by blast
  from evaluation_dimensions_in_range
    [of "''Because''" partial_reply_env "''Why?''" ?d, THEN conjunct2] nb p
  have "fst (evaluate_answer partial_reply_env ''Why?'' ''Because'') =
        Inr (JObject (fill_defaults EVALUATION_DEFAULTS ?d))"
    and "evaluation_in_range (JObject (fill_defaults EVALUATION_DEFAULTS ?d)) \<longleftrightarrow>
         (\<forall>k\<in>set DIMENSIONS. \<forall>v. map_of ?d k = Some v \<longrightarrow> dimension_ok v)"
    by blast+
  with ok have c2: "fst (evaluate_answer partial_reply_env ''Why?'' ''Because'') =
        Inr (JObject (fill_defaults EVALUATION_DEFAULTS ?d))"
    and c3: "evaluation_in_range (JObject (fill_defaults EVALUATION_DEFAULTS ?d))"
    by blast+
  from c1 c2 c3 show ?thesis unfolding f by (intro conjI)
qed

text \<open>
  Claim C10 as stated fails: the model replies with a depth of 42, and the evaluation
  returned carries it.
\<close>

theorem evaluation_dimensions_counterexample:
  "fst (evaluate_answer out_of_range_env ''Why?'' ''Because'') =
     Inr (JObject
       [(''depth'', JInt 42), (''relevance'', JInt 5), (''clarity'', JInt 5),
        (''communication'', JInt 5), (''problem_solving'', JInt 5),
        (''practical_experience'', JInt 5),
        (''short_summary'', JString ''Unable to evaluate'')]) \<and>
   \<not> evaluation_in_range (JObject
       [(''depth'', JInt 42), (''relevance'', JInt 5), (''clarity'', JInt 5),
        (''communication'', JInt 5), (''problem_solving'', JInt 5),
        (''practical_experience'', JInt 5),
        (''short_summary'', JString ''Unable to evaluate'')])"
  by (simp add: evaluate_eval parser_eval out_of_range_env_def Let_def
      evaluation_in_range_def DIMENSIONS_def dimension_ok_def)

subsection \<open>The elapsed time of the scorecard\<close>

text \<open>
  When the reply parses to a structure, \<^verbatim>\<open>generate_summary\<close> returns it with
  \<^verbatim>\<open>time_taken_minutes\<close> set from the clock, whatever the structure held there.
\<close>

lemma generate_summary_object:
  assumes "clean_json_response (json_loads e)
             (llm e (SummaryRequest resume job_description history start_time (now_summary e))) =
           Inr (JObject d)"
  shows "fst (generate_summary e resume job_description history start_time) =
           Inr (JObject (fill_defaults SUMMARY_DEFAULTS
             (dict_set ''time_taken_minutes''
                (JFloat (round_minutes e (now_summary e - start_time))) d)))"
  using assms by (simp add: generate_summary_def Let_def)

lemma generate_summary_time_override:
  assumes "clean_json_response (json_loads e)
             (llm e (SummaryRequest resume job_description history start_time (now_summary e))) =
           Inr (JObject d)"
  shows "\<exists>scorecard. fst (generate_summary e resume job_description history start_time) =
           Inr (JObject scorecard) \<and>
         map_of scorecard ''time_taken_minutes'' =
           Some (JFloat (round_minutes e (now_summary e - start_time)))"
  using generate_summary_object [OF assms]
  by (simp add: map_of_fill_defaults map_of_dict_set)

text \<open>
  Claim C4 does not hold of the code for every reply: on the reply below the parser
  raises, as for claim C5, and \<^verbatim>\<open>generate_summary\<close> returns no scorecard at all.
\<close>

theorem generate_summary_raises:
  "fst (generate_summary broken_summary_env ''Candidate: Ann'' ''Engineer''
          [\<lparr>t_type = question, content = ''Hi''\<rparr>, \<lparr>t_type = answer, content = ''Hello''\<rparr>] 0) =
     Inl JSONDecodeError"
  by (simp add: generate_summary_def broken_summary_env_def base_env_def parser_eval Let_def)

subsection \<open>Submitting an answer\<close>

lemma find_patch:
  assumes "\<And>r. s_id (f r) = s_id r"
  shows "find (\<lambda>r. s_id r = sid) (map (\<lambda>r. if s_id r = sid then f r else r) rows) =
         map_option f (find (\<lambda>r. s_id r = sid) rows)"
  by (induction rows) (simp_all add: assms)

lemma get_session_patch:
  assumes "\<And>r. s_id (f r) = s_id r"
  shows "get_session (patch_session d sid f) sid = map_option f (get_session d sid)"
  by (simp add: get_session_def patch_session_def find_patch assms)

lemma db_answers_patch: "db_answers (patch_session d sid f) = db_answers d"
  by (simp add: patch_session_def)

lemma get_session_create_question:
  "get_session (snd (create_interview_question e d q tid)) sid = get_session d sid"
  by (simp add: create_interview_question_def get_session_def)


lemma update_transcript_session:
  assumes "get_session d1 (r_session_id req) = Some s0"
  shows "\<exists>rest. get_session (update_transcript e d1 s req t ai_question should_stop)
                  (r_session_id req) =
           Some (s0\<lparr>s_full_transcript := Some (t @ candidate_line (r_answer req) @ rest)\<rparr>)"
proof (cases "truthy ai_question \<and> \<not> should_stop")
  case True
  with assms have "get_session (update_transcript e d1 s req t ai_question should_stop)
                  (r_session_id req) =
           Some (s0\<lparr>s_full_transcript := Some (t @ candidate_line (r_answer req) @
              (qid_line (new_question_id e) @ ai_line (format_value e ai_question)))\<rparr>)"
    by (simp add: update_transcript_def Let_def update_session_transcript_def
        get_session_patch get_session_create_question)
  then show ?thesis by blast
next
  case False
  then have c: "(truthy ai_question \<and> \<not> should_stop) = False" by simp
  from assms have "get_session (update_transcript e d1 s req t ai_question should_stop)
                  (r_session_id req) =
           Some (s0\<lparr>s_full_transcript := Some (t @ candidate_line (r_answer req) @ [])\<rparr>)"
    by (simp add: update_transcript_def Let_def update_session_transcript_def get_session_patch c)
  then show ?thesis by blast
qed

lemma store_answer_row:
  assumes "store_answer e d sid question_text answer_text evaluation question_id = Inr d1"
  shows "\<exists>row. db_answers d1 = db_answers d @ [row] \<and> a_session_id row = sid \<and>
               a_transcript row = answer_text \<and> db_sessions d1 = db_sessions d"
proof -
  from assms obtain ev where ev: "evaluation = JObject ev"
    by (cases evaluation) (simp_all add: store_answer_def)
  from assms obtain avg where a: "score_of e (map (\<lambda>k. dict_get ev k (JInt 5)) DIMENSIONS) = Inr avg"
    unfolding ev store_answer_def
    by (cases "score_of e (map (\<lambda>k. dict_get ev k (JInt 5)) DIMENSIONS)") simp_all
  from assms obtain cs where c: "score_of e [dict_get ev ''relevance'' (JInt 5),
      dict_get ev ''depth'' (JInt 5), dict_get ev ''problem_solving'' (JInt 5)] = Inr cs"
    unfolding ev store_answer_def
    by (cases "score_of e [dict_get ev ''relevance'' (JInt 5),
      dict_get ev ''depth'' (JInt 5), dict_get ev ''problem_solving'' (JInt 5)]") (simp_all add: a)
  from assms obtain ds where d: "score_of e [dict_get ev ''clarity'' (JInt 5),
      dict_get ev ''communication'' (JInt 5)] = Inr ds"
    unfolding ev store_answer_def
    by (cases "score_of e [dict_get ev ''clarity'' (JInt 5),
      dict_get ev ''communication'' (JInt 5)]") (simp_all add: a c)
  from assms show ?thesis
    unfolding ev store_answer_def by (auto simp: a c d)
qed

lemma complete_session_patch:
  assumes "complete_session e d3 sid summary = Inr d4"
  shows "\<exists>c. d4 = patch_session d3 sid (\<lambda>r. r\<lparr>s_status := ''completed'', s_completion := Some c\<rparr>)"
proof -
  from assms obtain sm where sm: "summary = JObject sm"
    by (cases summary) (simp_all add: complete_session_def)
  from assms obtain seconds where
    se: "seconds_of e (dict_get sm ''time_taken_minutes'' (JInt 0)) = Inr seconds"
    unfolding sm complete_session_def
    by (cases "seconds_of e (dict_get sm ''time_taken_minutes'' (JInt 0))") simp_all
  from assms obtain sk where sk: "dict_get sm ''skill_wise_scores'' (JObject []) = JObject sk"
    unfolding sm complete_session_def
    by (cases "dict_get sm ''skill_wise_scores'' (JObject [])") (simp_all add: se)
  from assms obtain rec where re: "dict_get sm ''final_recommendation'' (JString []) = JString rec"
    unfolding sm complete_session_def
    by (cases "dict_get sm ''final_recommendation'' (JString [])") (simp_all add: se sk)
  from assms show ?thesis
    unfolding sm complete_session_def by (simp add: se sk re) blast
qed

lemma complete_session_effect:
  assumes "complete_session e d3 sid summary = Inr d4"
  shows "db_answers d4 = db_answers d3 \<and>
         (\<forall>s3. get_session d3 sid = Some s3 \<longrightarrow>
            (\<exists>s4. get_session d4 sid = Some s4 \<and> s_status s4 = ''completed'' \<and>
                  s_full_transcript s4 = s_full_transcript s3))"
proof -
  from complete_session_patch [OF assms] obtain c where
    d4: "d4 = patch_session d3 sid (\<lambda>r. r\<lparr>s_status := ''completed'', s_completion := Some c\<rparr>)"
    by blast
  show ?thesis unfolding d4 by (simp add: db_answers_patch get_session_patch)
qed

lemma handle_answer_success:
  assumes s: "get_session d (r_session_id req) = Some s"
    and ok: "handle_answer e d req = (d', Inr resp)"
  obtains r evaluation d1 t where
    "interviewer_reply e d s = Inr (JObject r)"
    "fst (evaluate_answer e (last_question_of (s_full_transcript s)) (r_answer req)) =
       Inr evaluation"
    "store_answer e d (r_session_id req) (last_question_of (s_full_transcript s))
       (r_answer req) evaluation (extract_last_question_id (s_full_transcript s)) = Inr d1"
    "s_full_transcript s = Some t"
    "stop_or_continue e
       (update_transcript e d1 s req t (dict_get r ''question'' (JString []))
          (truthy (dict_get r ''stop_interview'' (JBool False)) \<or> time_expired e s))
       s req t (dict_get r ''question'' (JString [])) (dict_get r ''feedback'' (JString []))
       (truthy (dict_get r ''stop_interview'' (JBool False)) \<or> time_expired e s) =
     (d', Inr resp)"
proof -
  from ok obtain v where v: "interviewer_reply e d s = Inr v"
    by (cases "interviewer_reply e d s") (simp_all add: handle_answer_def s)
  from ok obtain r where r: "v = JObject r"
    by (cases v) (simp_all add: handle_answer_def s v)
  note ir = v [unfolded r]
  from ok obtain evaluation where
    ev: "fst (evaluate_answer e (last_question_of (s_full_transcript s)) (r_answer req)) =
           Inr evaluation"
    by (cases "fst (evaluate_answer e (last_question_of (s_full_transcript s)) (r_answer req))")
       (simp_all add: handle_answer_def s ir Let_def)
  from ok obtain d1 where
    st: "store_answer e d (r_session_id req) (last_question_of (s_full_transcript s))
           (r_answer req) evaluation (extract_last_question_id (s_full_transcript s)) = Inr d1"
    by (cases "store_answer e d (r_session_id req) (last_question_of (s_full_transcript s))
           (r_answer req) evaluation (extract_last_question_id (s_full_transcript s))")
       (simp_all add: handle_answer_def s ir ev Let_def)
  from ok ev st obtain t where t: "s_full_transcript s = Some t"
    by (cases "s_full_transcript s") (simp_all add: handle_answer_def s ir Let_def)
  from ok have fin: "stop_or_continue e
             (update_transcript e d1 s req t (dict_get r ''question'' (JString []))
                (truthy (dict_get r ''stop_interview'' (JBool False)) \<or> time_expired e s))
             s req t (dict_get r ''question'' (JString [])) (dict_get r ''feedback'' (JString []))
             (truthy (dict_get r ''stop_interview'' (JBool False)) \<or> time_expired e s) =
           (d', Inr resp)"
    using ev st by (simp add: handle_answer_def s ir t Let_def)
  from ir ev st t fin show ?thesis by (rule that)
qed

lemma stop_or_continue_running:
  "\<not> should_stop \<Longrightarrow>
   stop_or_continue e d3 s req t ai_question ai_feedback should_stop =
     (d3, Inr (Running ai_question ai_feedback))"
  by (simp add: stop_or_continue_def)

lemma stop_or_continue_completed:
  assumes "should_stop"
    and "stop_or_continue e d3 s req t ai_question ai_feedback should_stop = (d', Inr resp)"
  obtains summary where "complete_session e d3 (r_session_id req) summary = Inr d'"
    and "resp = Completed summary"
proof -
  let ?g = "fst (generate_summary e (extract_resume_context (s_full_transcript s))
                  (extract_job_description (s_full_transcript s))
                  (build_history_from_transcript (Some (t @ candidate_line (r_answer req))))
                  (start_time_ms e s))"
  from assms obtain summary where g: "?g = Inr summary"
    by (cases ?g) (simp_all add: stop_or_continue_def Let_def)
  from assms obtain d4 where c: "complete_session e d3 (r_session_id req) summary = Inr d4"
    by (cases "complete_session e d3 (r_session_id req) summary")
       (simp_all add: stop_or_continue_def Let_def g)
  from assms have "d' = d4" and "resp = Completed summary"
    by (simp_all add: stop_or_continue_def Let_def g c)
  with c show ?thesis using that by simp
qed

lemma stop_or_continue_iff:
  assumes "stop_or_continue e d3 s req t ai_question ai_feedback should_stop = (d', Inr resp)"
  shows "(\<exists>summary. resp = Completed summary) = should_stop"
proof (cases should_stop)
  case True
  from True assms obtain summary where "resp = Completed summary"
    by (rule stop_or_continue_completed)
  with True show ?thesis by simp
next
  case False
  with assms have "resp = Running ai_question ai_feedback"
    by (simp add: stop_or_continue_running)
  with False show ?thesis by simp
qed


lemma stop_or_continue_session:
  assumes "stop_or_continue e d3 s req t ai_question ai_feedback should_stop = (d', Inr resp)"
    and "get_session d3 (r_session_id req) = Some s3"
  obtains s' where "get_session d' (r_session_id req) = Some s'"
    and "s_full_transcript s' = s_full_transcript s3"
    and "should_stop \<longrightarrow> s_status s' = ''completed''"
proof (cases should_stop)
  case True
  from True assms(1) obtain summary where "complete_session e d3 (r_session_id req) summary = Inr d'"
    by (rule stop_or_continue_completed)
  from complete_session_effect [OF this, THEN conjunct2, rule_format, OF assms(2)]
  obtain s4 where "get_session d' (r_session_id req) = Some s4" "s_status s4 = ''completed''"
    "s_full_transcript s4 = s_full_transcript s3" by blast
  then show ?thesis using that by simp
next
  case False
  with assms(1) have "d' = d3" by (simp add: stop_or_continue_running)
  with assms(2) False show ?thesis using that by simp
qed

lemmas handle_eval =
  handle_answer_def get_session_def get_answers_for_session_def interviewer_reply_def
  run_interviewer_def time_expired_def elapsed_ms_def start_time_ms_def
  extract_resume_context_def extract_job_description_def DEFAULT_JOB_DESCRIPTION_def
  build_conversation_messages_def last10_def last_question_of_def
  extract_last_question_id_def TAG_QID_def
  store_answer_def DIMENSIONS_def dict_get_def
  update_transcript_def update_session_transcript_def patch_session_def
  create_interview_question_def qid_line_def ai_line_def candidate_line_def format_value_def
  stop_or_continue_def generate_summary_def SUMMARY_DEFAULTS_def
  complete_session_def
  DEFAULT_MAX_INTERVIEW_DURATION_MS_def
  interview_env_def interview_replies_def opening_transcript_def


lemma map_recommendation_needs_improvement:
  "map_recommendation ''Needs Improvement'' = ''maybe''"
proof -
  have "py_lower ''Needs Improvement'' = ''needs improvement''" by code_simp
  then show ?thesis
    by (simp add: map_recommendation_def py_strip_def py_isspace_def startswith_def)
qed

lemma timed_out_run:
  "handle_answer timed_out_env running_db
     \<lparr>r_session_id = ''s-1'', r_answer = ''I am an engineer''\<rparr> =
   (\<lparr>db_sessions =
       [\<lparr>s_id = ''s-1'', s_status = ''completed'', s_started_at = Some 0,
         s_full_transcript = Some (opening_transcript @ ''[CANDIDATE] I am an engineer\<newline>''),
         s_template_id = Some ''t-1'',
         s_completion = Some
           \<lparr>total_duration_seconds = 300, overall_score = JInt 5,
            technical_score = JInt 5, communication_score = JInt 5,
            behavioral_score = JInt 5, presentation_score = JInt 5,
            ai_recommendation = ''maybe'', strengths = JArray [],
            improvement_areas = JArray []\<rparr>\<rparr>],
     db_answers =
       [\<lparr>a_session_id = ''s-1'', a_question_text_snapshot = ''Hello Ann!'',
         a_transcript = ''I am an engineer'', a_score = 50,
         a_content_score = 50, a_delivery_score = 50,
         a_ai_feedback = JString ''Unable to evaluate'',
         a_question_id = Some ''q-1''\<rparr>],
     db_questions = []\<rparr>,
    Inr (Completed (JObject
      [(''time_taken_minutes'', JFloat (Finite 5)),
       (''strengths'', JArray []), (''improvement_areas'', JArray []),
       (''skill_wise_scores'', JObject
          [(''communication'', JInt 5), (''problem_solving'', JInt 5),
           (''role_specific_knowledge'', JInt 5), (''practical_experience'', JInt 5),
           (''clarity'', JInt 5), (''confidence'', JInt 5)]),
       (''overall_score'', JInt 5),
       (''resume_match_percentage'', JInt 50),
       (''final_recommendation'', JString ''Needs Improvement''),
       (''expected_response_time'', JString ''Within 3-5 business days'')])))"
  by (simp add: handle_eval running_db_def timed_out_env_def transcript_eval evaluate_eval
      parser_eval Let_def map_recommendation_needs_improvement)






















text \<open>
  The time signal is set exactly when the elapsed time, the clock reading minus the start
  time, is strictly greater than the configured ceiling, 300000 ms unless configured
  otherwise. In a request that goes through, the interviewer's reply is a dictionary, and
  the response is the final scorecard, with the session marked completed, exactly when
  the time signal is set or the reply's \<^verbatim>\<open>stop_interview\<close> is true.
\<close>

lemma stop_policy:
  assumes found: "get_session d (r_session_id req) = Some s"
    and ok: "handle_answer e d req = (d', Inr resp)"
  shows "DEFAULT_MAX_INTERVIEW_DURATION_MS = 300000 \<and>
         time_expired e s = (now_elapsed e - start_time_ms e s > MAX_INTERVIEW_DURATION_MS e) \<and>
         (\<exists>r. interviewer_reply e d s = Inr (JObject r) \<and>
            ((\<exists>summary. resp = Completed summary) \<longleftrightarrow>
               (time_expired e s \<or> truthy (dict_get r ''stop_interview'' (JBool False)))) \<and>
            ((\<exists>summary. resp = Completed summary) \<longrightarrow>
               (\<exists>s'. get_session d' (r_session_id req) = Some s' \<and>
                     s_status s' = ''completed'')))"
proof -
  from found ok obtain r evaluation d1 t where
    ir: "interviewer_reply e d s = Inr (JObject r)"
    and st: "store_answer e d (r_session_id req) (last_question_of (s_full_transcript s))
           (r_answer req) evaluation (extract_last_question_id (s_full_transcript s)) = Inr d1"
    and fin: "stop_or_continue e
             (update_transcript e d1 s req t (dict_get r ''question'' (JString []))
                (truthy (dict_get r ''stop_interview'' (JBool False)) \<or> time_expired e s))
             s req t (dict_get r ''question'' (JString [])) (dict_get r ''feedback'' (JString []))
             (truthy (dict_get r ''stop_interview'' (JBool False)) \<or> time_expired e s) =
           (d', Inr resp)"
    by (rule handle_answer_success)
  let ?stop = "truthy (dict_get r ''stop_interview'' (JBool False)) \<or> time_expired e s"
  let ?d3 = "update_transcript e d1 s req t (dict_get r ''question'' (JString [])) ?stop"
  from store_answer_row [OF st] have "db_sessions d1 = db_sessions d" by blast
  with found have "get_session d1 (r_session_id req) = Some s" by (simp add: get_session_def)
  from update_transcript_session [OF this] obtain s3 where
    s3: "get_session ?d3 (r_session_id req) = Some s3" by blast
  from fin s3 obtain s' where
    s': "get_session d' (r_session_id req) = Some s'" "?stop \<longrightarrow> s_status s' = ''completed''"
    by (rule stop_or_continue_session)
  have iff: "(\<exists>summary. resp = Completed summary) = ?stop"
    using fin by (rule stop_or_continue_iff)
  have c1: "DEFAULT_MAX_INTERVIEW_DURATION_MS = 300000"
    by (simp add: DEFAULT_MAX_INTERVIEW_DURATION_MS_def)
  have c2: "time_expired e s =
      (now_elapsed e - start_time_ms e s > MAX_INTERVIEW_DURATION_MS e)"
    by (simp add: time_expired_def elapsed_ms_def)
  have c3: "(\<exists>summary. resp = Completed summary) \<longleftrightarrow>
      (time_expired e s \<or> truthy (dict_get r ''stop_interview'' (JBool False)))"
    unfolding iff by (rule disj_commute)
  have c4: "(\<exists>summary. resp = Completed summary) \<longrightarrow>
      (\<exists>s'. get_session d' (r_session_id req) = Some s' \<and> s_status s' = ''completed'')"
    unfolding iff using s' by blast
  from ir c3 c4 have "\<exists>r. interviewer_reply e d s = Inr (JObject r) \<and>
            ((\<exists>summary. resp = Completed summary) \<longleftrightarrow>
               (time_expired e s \<or> truthy (dict_get r ''stop_interview'' (JBool False)))) \<and>
            ((\<exists>summary. resp = Completed summary) \<longrightarrow>
               (\<exists>s'. get_session d' (r_session_id req) = Some s' \<and>
                     s_status s' = ''completed''))"
    by (intro exI [of _ r] conjI)
  with c1 c2 show ?thesis by (intro conjI)
qed

lemma stop_policy_example:
  "now_elapsed timed_out_env - 0 = 301000 \<and>
   MAX_INTERVIEW_DURATION_MS timed_out_env = 300000 \<and>
   time_expired timed_out_env (hd (db_sessions running_db)) \<and>
   (\<exists>summary. snd (handle_answer timed_out_env running_db
       \<lparr>r_session_id = ''s-1'', r_answer = ''I am an engineer''\<rparr>) = Inr (Completed summary)) \<and>
   map s_status (db_sessions (fst (handle_answer timed_out_env running_db
       \<lparr>r_session_id = ''s-1'', r_answer = ''I am an engineer''\<rparr>))) = [''completed'']"
proof -
  let ?req = "\<lparr>r_session_id = ''s-1'', r_answer = ''I am an engineer''\<rparr>"
  let ?s = "hd (db_sessions running_db)"
  have s: "get_session running_db (r_session_id ?req) = Some ?s"
    by (simp add: get_session_def running_db_def)
  obtain d' resp where run: "handle_answer timed_out_env running_db ?req = (d', Inr resp)"
    using timed_out_run by blast
  note p = stop_policy [OF s run]
  have el: "now_elapsed timed_out_env - 0 = 301000"
    and mx: "MAX_INTERVIEW_DURATION_MS timed_out_env = 300000"
    by (simp_all add: timed_out_env_def interview_env_def base_env_def
        DEFAULT_MAX_INTERVIEW_DURATION_MS_def)
  have st: "start_time_ms timed_out_env ?s = 0"
    by (simp add: start_time_ms_def running_db_def)
  from p have "time_expired timed_out_env ?s =
      (now_elapsed timed_out_env - start_time_ms timed_out_env ?s >
       MAX_INTERVIEW_DURATION_MS timed_out_env)"
    by (elim conjE)
  with el mx st have ex: "time_expired timed_out_env ?s" by simp
  from p obtain r where
    iff: "(\<exists>summary. resp = Completed summary) \<longleftrightarrow>
       (time_expired timed_out_env ?s \<or> truthy (dict_get r ''stop_interview'' (JBool False)))"
    by (elim conjE exE)
  with ex have cmp: "\<exists>summary. resp = Completed summary" by simp
  from cmp run have c: "\<exists>summary. snd (handle_answer timed_out_env running_db ?req) =
      Inr (Completed summary)" by simp
  have d: "map s_status (db_sessions (fst (handle_answer timed_out_env running_db ?req))) =
      [''completed'']"
    by (simp add: timed_out_run)
  from el mx ex c d show ?thesis by (intro conjI)
qed

text \<open>
  Claim C7 does not hold of the code in every run. Below, the answer arrives 301000 ms
  after the start, against the ceiling of 300000 ms, so the time signal is set; the
  summary model's reply ends in a trailing comma, the parser raises as for claim C5, and
  \<^verbatim>\<open>handle_answer\<close> answers 500: no scorecard is produced and the session keeps the
  status \<^verbatim>\<open>started\<close>, with the answer already stored and appended.
\<close>

theorem timed_out_session_not_completed:
  "elapsed_ms summary_fails_env (hd (db_sessions running_db)) = 301000 \<and>
   MAX_INTERVIEW_DURATION_MS summary_fails_env = 300000 \<and>
   time_expired summary_fails_env (hd (db_sessions running_db)) \<and>
   handle_answer summary_fails_env running_db
     \<lparr>r_session_id = ''s-1'', r_answer = ''I am an engineer''\<rparr> =
   (\<lparr>db_sessions =
       [\<lparr>s_id = ''s-1'', s_status = ''started'', s_started_at = Some 0,
         s_full_transcript = Some (opening_transcript @ ''[CANDIDATE] I am an engineer\<newline>''),
         s_template_id = Some ''t-1'', s_completion = None\<rparr>],
     db_answers =
       [\<lparr>a_session_id = ''s-1'', a_question_text_snapshot = ''Hello Ann!'',
         a_transcript = ''I am an engineer'', a_score = 50,
         a_content_score = 50, a_delivery_score = 50,
         a_ai_feedback = JString ''Unable to evaluate'',
         a_question_id = Some ''q-1''\<rparr>],
     db_questions = []\<rparr>,
    Inl (HTTP_500 JSONDecodeError))"
  by (simp add: handle_eval running_db_def timed_out_env_def summary_fails_env_def
      summary_fails_replies_def transcript_eval evaluate_eval parser_eval Let_def)

end
